theory Spec2Isabelle
  imports Complex_Main
begin

section \<open>Python numbers\<close>

text \<open>
  A Python \<^verbatim>\<open>float\<close> is an IEEE 754 binary64 number. Every finite binary64 number is a
  rational, so a float is modelled by the rational it denotes (type \<open>pyfloat\<close>), and every
  arithmetic operation of the source is the exact operation followed by rounding to the
  nearest binary64 number, ties to the even significand (\<open>double_of\<close>). A float literal
  of the source such as \<^verbatim>\<open>0.3\<close> is \<open>double_of (3 / 10)\<close>, the binary64 number
  the literal denotes, and not the rational \<open>3 / 10\<close>.

  \<open>double_of\<close> rounds to 53 significant bits with an unbounded exponent: it is the
  binary64 rounding for every value of magnitude in \<open>[2\<^sup>-\<^sup>1\<^sup>0\<^sup>2\<^sup>2, 2\<^sup>1\<^sup>0\<^sup>2\<^sup>4)\<close>
  and for zero. All scores handled here lie in \<open>[0, 2)\<close>. Infinities and NaN are not
  modelled.
\<close>

type_synonym pyfloat = rat

definition round_half_even :: "rat \<Rightarrow> int" where
  "round_half_even x =
     (let f = \<lfloor>x\<rfloor>; d = x - of_int f
      in if d < 1 / 2 then f else if 1 / 2 < d then f + 1 else if even f then f else f + 1)"

text \<open>\<open>ilog2 x\<close> is the binary exponent of a positive rational: \<open>2\<^sup>e \<le> x < 2\<^sup>e\<^sup>+\<^sup>1\<close>.\<close>

function ilog2 :: "rat \<Rightarrow> int" where
  "ilog2 x = (if x \<le> 0 then 0
              else if 2 \<le> x then ilog2 (x / 2) + 1
              else if x < 1 then ilog2 (2 * x) - 1
              else 0)"
  by pat_completeness auto
termination
proof (relation "measure (\<lambda>x. if 1 \<le> x then nat \<lfloor>x\<rfloor> else nat \<lceil>1 / x\<rceil> + 1)", goal_cases)
  case 1
  then show ?case by simp
next
  case (2 x)
  then show ?case by (auto; linarith)
next
  case (3 x)
  then have x: "0 < x" "x < 1" by auto
  show ?case
  proof (cases "1 \<le> 2 * x")
    case True
    have "2 * x < 2" using x by simp
    then have "\<lfloor>2 * x\<rfloor> \<le> 1" by linarith
    moreover have "1 < 1 / x" using x by simp
    then have "2 \<le> \<lceil>1 / x\<rceil>" by linarith
    ultimately have "nat \<lfloor>2 * x\<rfloor> < nat \<lceil>1 / x\<rceil> + 1" by linarith
    then show ?thesis using True x by simp
  next
    case False
    have "2 < 1 / x" using False x by (simp add: field_simps)
    then have "3 \<le> \<lceil>1 / x\<rceil>" by linarith
    have "1 / (2 * x) = (1 / x) / 2" by simp
    also have "\<dots> \<le> of_int \<lceil>1 / x\<rceil> / 2" by (simp add: divide_right_mono)
    also have "\<dots> \<le> of_int (\<lceil>1 / x\<rceil> - 1)"
      using \<open>3 \<le> \<lceil>1 / x\<rceil>\<close> by simp
    finally have "\<lceil>1 / (2 * x)\<rceil> \<le> \<lceil>1 / x\<rceil> - 1" by (simp only: ceiling_le_iff)
    then have "nat \<lceil>1 / (2 * x)\<rceil> + 1 < nat \<lceil>1 / x\<rceil> + 1"
      using \<open>3 \<le> \<lceil>1 / x\<rceil>\<close> by linarith
    moreover have "\<not> 1 \<le> x" using x by simp
    ultimately show ?thesis using False by (simp only: in_measure if_False)
  qed
qed

definition double_of :: "rat \<Rightarrow> pyfloat" where
  "double_of x =
     (if x = 0 then 0
      else let u = 2 powi (ilog2 \<bar>x\<bar> - 52)
           in sgn x * (of_int (round_half_even (\<bar>x\<bar> / u)) * u))"

text \<open>
  \<^verbatim>\<open>a / b\<close> on two Python ints, or on floats, is the correctly rounded quotient;
  \<^verbatim>\<open>a + b\<close> on floats the correctly rounded sum. \<^verbatim>\<open>round(x, n)\<close> on a float rounds
  the exact value of \<open>x\<close> to \<open>n\<close> decimals, ties to even, and returns the binary64 number
  nearest to that decimal.
\<close>

definition float_div :: "rat \<Rightarrow> rat \<Rightarrow> pyfloat" where
  "float_div a b = double_of (a / b)"

definition float_add :: "pyfloat \<Rightarrow> pyfloat \<Rightarrow> pyfloat" where
  "float_add a b = double_of (a + b)"

definition py_round :: "pyfloat \<Rightarrow> nat \<Rightarrow> pyfloat" where
  "py_round x ndigits = double_of (of_int (round_half_even (x * 10 ^ ndigits)) / 10 ^ ndigits)"

text \<open>
  \<^verbatim>\<open>sum(...)\<close> over floats, starting from the int \<^verbatim>\<open>0\<close>, adds from left to right and
  rounds after each addition (CPython before 3.12; later versions compensate the rounding
  error, which can change the last bit of a sum of three or more floats).
\<close>

definition py_sum :: "pyfloat list \<Rightarrow> pyfloat" where
  "py_sum xs = foldl float_add 0 xs"

section \<open>The adaptation policy (\<^verbatim>\<open>app/domain/decision_engine.py\<close>)\<close>

datatype plan_adjustment = reduce_scope | repeat_concepts | increase_challenge | keep

definition LOW_ADHERENCE_THRESHOLD :: pyfloat where
  "LOW_ADHERENCE_THRESHOLD = double_of (3 / 10)"

definition MEDIUM_ADHERENCE_THRESHOLD :: pyfloat where
  "MEDIUM_ADHERENCE_THRESHOLD = double_of (6 / 10)"

definition LOW_KNOWLEDGE_THRESHOLD :: pyfloat where
  "LOW_KNOWLEDGE_THRESHOLD = double_of (4 / 10)"

definition LOW_RETENTION_THRESHOLD :: pyfloat where
  "LOW_RETENTION_THRESHOLD = double_of (5 / 10)"

definition determine_adjustment :: "pyfloat \<Rightarrow> pyfloat \<Rightarrow> pyfloat \<Rightarrow> plan_adjustment" where
  "determine_adjustment adherence knowledge retention =
     (if adherence < LOW_ADHERENCE_THRESHOLD then reduce_scope
      else if retention < LOW_RETENTION_THRESHOLD then repeat_concepts
      else if double_of (8 / 10) < knowledge \<and> double_of (8 / 10) < adherence
        then increase_challenge
      else keep)"

section \<open>The data model (\<^verbatim>\<open>shared/db/models.py\<close>)\<close>

text \<open>
  A \<^verbatim>\<open>date\<close> is its proleptic Gregorian ordinal (\<^verbatim>\<open>date.toordinal()\<close>; day 1 is Monday
  0001-01-01), so \<^verbatim>\<open>d - timedelta(days=n)\<close> is \<open>d - n\<close> and \<^verbatim>\<open>d.weekday()\<close> is
  \<open>(d + 6) mod 7\<close>, Monday being 0. A \<^verbatim>\<open>datetime\<close> is a number of microseconds since
  1970-01-01, whose ordinal is 719163. The clock (\<^verbatim>\<open>date.today()\<close>,
  \<^verbatim>\<open>datetime.utcnow()\<close>) is an argument of every function that reads it.
\<close>

type_synonym date = int
type_synonym datetime = int

definition weekday :: "date \<Rightarrow> int" where
  "weekday d = (d + 6) mod 7"

definition datetime_date :: "datetime \<Rightarrow> date" where
  "datetime_date t = 719163 + t div 86400000000"

datatype task_status = PENDING | IN_PROGRESS | COMPLETED | SKIPPED

datatype task_type = READING | CODING | REVIEW | QUIZ

text \<open>\<^verbatim>\<open>TaskType(s)\<close>: the member with that value; \<open>None\<close> stands for the \<^verbatim>\<open>ValueError\<close>.\<close>

definition TaskType :: "string \<Rightarrow> task_type option" where
  "TaskType s =
     (if s = ''reading'' then Some READING
      else if s = ''coding'' then Some CODING
      else if s = ''review'' then Some REVIEW
      else if s = ''quiz'' then Some QUIZ
      else None)"

record commitment =
  commitment_id :: int
  commitment_user_id :: int
  commitment_goal :: string
  commitment_target_date :: date
  commitment_weekly_hours :: int
  commitment_baseline_level :: "string option"
  commitment_learning_style :: string
  commitment_is_active :: bool
  commitment_created_at :: datetime

record premortem_risk =
  risk_id :: int
  risk_commitment_id :: int
  risk_risk :: string
  risk_mitigation :: string
  risk_priority :: int

text \<open>
  The JSON payload of a plan, as the content generator's schema types it. A field that
  is \<open>None\<close> is a key absent from the dict.
\<close>

record task_data =
  td_task :: "string option"
  td_timebox_min :: "int option"
  td_type :: "string option"
  td_day :: "int option"

record plan_json =
  pj_week_focus :: "string option"
  pj_tasks :: "task_data list option"
  pj_micro_project :: "string option"
  pj_review_topics :: "string list option"

record plan =
  plan_id :: int
  plan_user_id :: int
  plan_week_start :: date
  plan_version :: int
  plan_plan_json :: plan_json
  plan_is_active :: bool

record daily_task =
  task_id :: int
  task_plan_id :: int
  task_date :: date
  task_task :: string
  task_timebox_min :: int
  task_task_type :: task_type
  task_status :: task_status
  task_started_at :: "datetime option"
  task_completed_at :: "datetime option"

record checkin =
  checkin_id :: int
  checkin_user_id :: int
  checkin_date :: date
  checkin_yesterday :: "string option"
  checkin_today :: "string option"
  checkin_blockers :: "string option"
  checkin_next_task :: "string option"
  checkin_fallback_task :: "string option"
  checkin_advice :: "string option"

record quiz =
  quiz_id :: int
  quiz_user_id :: int
  quiz_score :: "pyfloat option"
  quiz_completed :: bool
  quiz_created_at :: datetime

record memory_rule =
  rule_id :: int
  rule_user_id :: int
  rule_rule_type :: string
  rule_rule_value :: string
  rule_confidence :: pyfloat
  rule_is_active :: bool

text \<open>
  A record has the columns of its table that the modelled functions read or write; the
  timestamps that only the database fills in are left out. A \<^verbatim>\<open>Float\<close> column holds a
  binary64 number (SQLite \<^verbatim>\<open>REAL\<close>, PostgreSQL \<^verbatim>\<open>double precision\<close>), so a score
  read back is the score written.

  The database session: each table is the list of its rows in insertion order. A query
  returns the matching rows in that order unless it orders them, so \<^verbatim>\<open>.first()\<close> is the
  first matching row (\<open>find\<close>) and \<^verbatim>\<open>.count()\<close> the number of matching rows. An
  autoincremented primary key is one more than the largest key of the table. An update of
  a loaded row is an update of the row with its primary key.
\<close>

record db =
  commitments :: "commitment list"
  premortem_risks :: "premortem_risk list"
  plans :: "plan list"
  daily_tasks :: "daily_task list"
  checkins :: "checkin list"
  quizzes :: "quiz list"
  memory_rules :: "memory_rule list"

definition next_id :: "int list \<Rightarrow> int" where
  "next_id ids = fold max ids 0 + 1"

section \<open>The response contract (\<^verbatim>\<open>shared/schemas/agent_decision.py\<close>)\<close>

datatype user_status = active | at_risk | recovering

record signals =
  sig_adherence :: pyfloat
  sig_knowledge :: pyfloat
  sig_retention :: pyfloat
  sig_status :: user_status

record next_task =
  nt_task :: string
  nt_timebox_min :: int
  nt_type :: string

record resource_used =
  res_title :: string
  res_url :: string
  res_relevance :: pyfloat

record action =
  act_plan_adjustment :: plan_adjustment
  act_risk_mitigation :: "string list"

record agent_decision =
  reason :: string
  advice :: "string option"
  signals :: signals
  action :: action
  next_tasks :: "next_task list"
  resources_used :: "resource_used list"
  quality_score :: pyfloat
  quality_flags :: "string list"

datatype error = ValidationError | HTTPException int string

text \<open>
  The constructors of the pydantic models validate their fields and raise
  \<^verbatim>\<open>ValidationError\<close>: the three scores, the quality score and a relevance lie in
  \<open>[0, 1]\<close>, a timebox in \<open>[10, 120]\<close>, and a task type is one of four literals.
\<close>

definition Signals_valid :: "signals \<Rightarrow> bool" where
  "Signals_valid s \<longleftrightarrow>
     0 \<le> sig_adherence s \<and> sig_adherence s \<le> 1
     \<and> 0 \<le> sig_knowledge s \<and> sig_knowledge s \<le> 1
     \<and> 0 \<le> sig_retention s \<and> sig_retention s \<le> 1"

definition NextTask_valid :: "next_task \<Rightarrow> bool" where
  "NextTask_valid t \<longleftrightarrow>
     10 \<le> nt_timebox_min t \<and> nt_timebox_min t \<le> 120
     \<and> (nt_type t = ''reading'' \<or> nt_type t = ''coding''
        \<or> nt_type t = ''review'' \<or> nt_type t = ''quiz'')"

definition ResourceUsed_valid :: "resource_used \<Rightarrow> bool" where
  "ResourceUsed_valid r \<longleftrightarrow> 0 \<le> res_relevance r \<and> res_relevance r \<le> 1"

definition AgentDecision :: "agent_decision \<Rightarrow> error + agent_decision" where
  "AgentDecision d =
     (if Signals_valid (signals d)
         \<and> list_all NextTask_valid (next_tasks d)
         \<and> list_all ResourceUsed_valid (resources_used d)
         \<and> 0 \<le> quality_score d \<and> quality_score d \<le> 1
      then Inr d else Inl ValidationError)"

text \<open>
  The decision returned by every service when the user has no active commitment
  (the same literal in \<^verbatim>\<open>generate_weekly_plan\<close> and \<^verbatim>\<open>process_checkin\<close>).
\<close>

definition no_commitment_decision :: agent_decision where
  "no_commitment_decision =
     \<lparr>reason = ''No active commitment found. Please complete intake first.'',
      advice = None,
      signals = \<lparr>sig_adherence = 0, sig_knowledge = 0, sig_retention = 0,
                 sig_status = at_risk\<rparr>,
      action = \<lparr>act_plan_adjustment = keep, act_risk_mitigation = []\<rparr>,
      next_tasks = [\<lparr>nt_task = ''Complete intake assessment'', nt_timebox_min = 10,
                     nt_type = ''review''\<rparr>],
      resources_used = [],
      quality_score = 1,
      quality_flags = [''no_commitment'']\<rparr>"

section \<open>Python strings\<close>

text \<open>
  Strings are byte strings here: \<^verbatim>\<open>len\<close>, \<^verbatim>\<open>lower\<close> and \<^verbatim>\<open>in\<close> are those of ASCII
  text. \<^verbatim>\<open>str(n)\<close> of an int is its decimal numeral. An optional string is truthy when
  it is neither \<^verbatim>\<open>None\<close> nor empty.
\<close>

fun str_nat :: "nat \<Rightarrow> string" where
  "str_nat n =
     (if n < 10 then [''0123456789'' ! n]
      else str_nat (n div 10) @ [''0123456789'' ! (n mod 10)])"

definition str_int :: "int \<Rightarrow> string" where
  "str_int i = (if i < 0 then ''-'' @ str_nat (nat (- i)) else str_nat (nat i))"







text \<open>\<^verbatim>\<open>s or "default"\<close> on an optional string.\<close>

definition or_else :: "string option \<Rightarrow> string \<Rightarrow> string" where
  "or_else s d = (case s of None \<Rightarrow> d | Some t \<Rightarrow> if t = [] then d else t)"

section \<open>The plan service (\<^verbatim>\<open>app/services/plan_service.py\<close>)\<close>

text \<open>
  The content generator is outside the program: it is an argument \<open>llm\<close> of the functions
  that call it, from the values formatted into the prompt to the structured output, with
  \<open>None\<close> for any exception raised in the \<^verbatim>\<open>try\<close> block.
\<close>

record plan_prompt =
  pp_goal :: string
  pp_target_date :: date
  pp_weeks_remaining :: int
  pp_weekly_hours :: int
  pp_learning_style :: string
  pp_baseline_level :: string
  pp_current_week :: int
  pp_risks :: "(string \<times> string) list"
  pp_memory_rules :: "string list"

definition get_week_start :: "date \<Rightarrow> date" where
  "get_week_start d = d - weekday d"

definition default_plan :: "commitment \<Rightarrow> plan_json" where
  "default_plan commitment =
     \<lparr>pj_week_focus = Some (''Getting started with '' @ commitment_goal commitment),
      pj_tasks = Some
        [\<lparr>td_task = Some ''Review fundamentals'', td_timebox_min = Some 45,
          td_type = Some ''reading'', td_day = Some 1\<rparr>,
         \<lparr>td_task = Some ''Practice exercise 1'', td_timebox_min = Some 30,
          td_type = Some ''coding'', td_day = Some 2\<rparr>,
         \<lparr>td_task = Some ''Continue learning'', td_timebox_min = Some 45,
          td_type = Some ''reading'', td_day = Some 3\<rparr>,
         \<lparr>td_task = Some ''Practice exercise 2'', td_timebox_min = Some 30,
          td_type = Some ''coding'', td_day = Some 4\<rparr>,
         \<lparr>td_task = Some ''Weekly review'', td_timebox_min = Some 20,
          td_type = Some ''review'', td_day = Some 5\<rparr>],
      pj_micro_project = None,
      pj_review_topics = Some []\<rparr>"

definition plan_to_decision :: "plan \<Rightarrow> commitment \<Rightarrow> error + agent_decision" where
  "plan_to_decision plan commitment =
     (let plan_data = plan_plan_json plan;
          week_focus = (case pj_week_focus plan_data of None \<Rightarrow> ''Learning week'' | Some w \<Rightarrow> w);
          tasks = (case pj_tasks plan_data of None \<Rightarrow> [] | Some ts \<Rightarrow> ts);
          next_tasks =
            map (\<lambda>t. \<lparr>nt_task = (case td_task t of None \<Rightarrow> [] | Some s \<Rightarrow> s),
                      nt_timebox_min = (case td_timebox_min t of None \<Rightarrow> 45 | Some m \<Rightarrow> m),
                      nt_type = (case td_type t of None \<Rightarrow> ''reading'' | Some s \<Rightarrow> s)\<rparr>)
              (take 3 tasks)
      in AgentDecision
           \<lparr>reason = ''Week '' @ str_int (plan_version plan) @ '': '' @ week_focus,
            advice = None,
            signals = \<lparr>sig_adherence = 1, sig_knowledge = 0, sig_retention = 0,
                       sig_status = active\<rparr>,
            action = \<lparr>act_plan_adjustment = keep, act_risk_mitigation = []\<rparr>,
            next_tasks = next_tasks,
            resources_used = [],
            quality_score = 1,
            quality_flags = []\<rparr>)"

text \<open>
  \<^verbatim>\<open>_create_daily_tasks\<close>: one iteration of the loop per task of the payload; the rows
  receive their keys in the order they were added.
\<close>

fun create_daily_tasks :: "db \<Rightarrow> plan \<Rightarrow> task_data list \<Rightarrow> db" where
  "create_daily_tasks db plan [] = db"
| "create_daily_tasks db plan (task_data # rest) =
     (let week_start = plan_week_start plan;
          day = (case td_day task_data of None \<Rightarrow> 1 | Some d \<Rightarrow> d);
          task_date = week_start + max 0 (day - 1);
          task_type_str = (case td_type task_data of None \<Rightarrow> ''reading'' | Some s \<Rightarrow> s);
          task_type = (case TaskType task_type_str of None \<Rightarrow> READING | Some ty \<Rightarrow> ty);
          daily_task =
            \<lparr>task_id = next_id (map task_id (daily_tasks db)),
             task_plan_id = plan_id plan,
             task_date = task_date,
             task_task = (case td_task task_data of None \<Rightarrow> [] | Some s \<Rightarrow> s),
             task_timebox_min = (case td_timebox_min task_data of None \<Rightarrow> 45 | Some m \<Rightarrow> m),
             task_task_type = task_type,
             task_status = PENDING,
             task_started_at = None,
             task_completed_at = None\<rparr>
      in create_daily_tasks (db\<lparr>daily_tasks := daily_tasks db @ [daily_task]\<rparr>) plan rest)"

text \<open>
  \<^verbatim>\<open>generate_weekly_plan\<close>. The test \<^verbatim>\<open>existing_plan and not force_regenerate\<close> selects
  the early return; it is written as a case on the plan that is returned.
\<close>

definition generate_weekly_plan ::
  "(plan_prompt \<Rightarrow> plan_json option) \<Rightarrow> db \<Rightarrow> date \<Rightarrow> int \<Rightarrow> bool
     \<Rightarrow> (error + agent_decision) \<times> db" where
  "generate_weekly_plan llm db today user_id force_regenerate =
     (case find (\<lambda>c. commitment_user_id c = user_id \<and> commitment_is_active c) (commitments db) of
        None \<Rightarrow> (AgentDecision no_commitment_decision, db)
      | Some commitment \<Rightarrow>
          let week_start = get_week_start today;
              weeks_remaining = max 1 ((commitment_target_date commitment - today) div 7);
              current_week =
                max 1 ((today - datetime_date (commitment_created_at commitment)) div 7 + 1);
              existing_plan =
                find (\<lambda>p. plan_user_id p = user_id \<and> plan_week_start p = week_start
                          \<and> plan_is_active p) (plans db)
          in case (if force_regenerate then None else existing_plan) of
               Some returned \<Rightarrow> (plan_to_decision returned commitment, db)
             | None \<Rightarrow>
                 let risks =
                       take 3 (sort_key risk_priority
                         (filter (\<lambda>r. risk_commitment_id r = commitment_id commitment)
                            (premortem_risks db)));
                     rules =
                       filter (\<lambda>r. rule_user_id r = user_id \<and> rule_is_active r)
                         (memory_rules db);
                     prompt =
                       \<lparr>pp_goal = commitment_goal commitment,
                        pp_target_date = commitment_target_date commitment,
                        pp_weeks_remaining = weeks_remaining,
                        pp_weekly_hours = commitment_weekly_hours commitment,
                        pp_learning_style = commitment_learning_style commitment,
                        pp_baseline_level =
                          or_else (commitment_baseline_level commitment) ''beginner'',
                        pp_current_week = current_week,
                        pp_risks = map (\<lambda>r. (risk_risk r, risk_mitigation r)) risks,
                        pp_memory_rules = map rule_rule_value rules\<rparr>;
                     llm_response =
                       (case llm prompt of None \<Rightarrow> default_plan commitment | Some r \<Rightarrow> r);
                     new_version =
                       (case existing_plan of None \<Rightarrow> 1 | Some e \<Rightarrow> plan_version e + 1);
                     old_plans =
                       (case existing_plan of
                          None \<Rightarrow> plans db
                        | Some e \<Rightarrow>
                            map (\<lambda>p. if plan_id p = plan_id e
                                      then p\<lparr>plan_is_active := False\<rparr> else p) (plans db));
                     plan =
                       \<lparr>plan_id = next_id (map plan_id (plans db)),
                        plan_user_id = user_id,
                        plan_week_start = week_start,
                        plan_version = new_version,
                        plan_plan_json = llm_response,
                        plan_is_active = True\<rparr>;
                     db1 = create_daily_tasks (db\<lparr>plans := old_plans @ [plan]\<rparr>) plan
                             (case pj_tasks llm_response of None \<Rightarrow> [] | Some ts \<Rightarrow> ts)
                 in (plan_to_decision plan commitment, db1))"

definition get_today_tasks :: "db \<Rightarrow> date \<Rightarrow> int \<Rightarrow> daily_task list" where
  "get_today_tasks db today user_id =
     (case find (\<lambda>p. plan_user_id p = user_id \<and> plan_is_active p) (plans db) of
        None \<Rightarrow> []
      | Some plan \<Rightarrow>
          filter (\<lambda>t. task_plan_id t = plan_id plan \<and> task_date t = today) (daily_tasks db))"

section \<open>The scoring service (\<^verbatim>\<open>app/services/scoring_service.py\<close>)\<close>

text \<open>
  \<^verbatim>\<open>calculate_adherence\<close>. Its two counting queries are \<open>total_tasks\<close> and
  \<open>completed_tasks\<close>; \<open>since\<close> is \<^verbatim>\<open>date.today() - timedelta(days=days)\<close>.
\<close>

definition total_tasks :: "db \<Rightarrow> plan \<Rightarrow> date \<Rightarrow> date \<Rightarrow> nat" where
  "total_tasks db plan since today =
     length (filter (\<lambda>t. task_plan_id t = plan_id plan \<and> since \<le> task_date t
                        \<and> task_date t \<le> today) (daily_tasks db))"

definition completed_tasks :: "db \<Rightarrow> plan \<Rightarrow> date \<Rightarrow> date \<Rightarrow> nat" where
  "completed_tasks db plan since today =
     length (filter (\<lambda>t. task_plan_id t = plan_id plan \<and> since \<le> task_date t
                        \<and> task_date t \<le> today \<and> task_status t = COMPLETED)
               (daily_tasks db))"

definition calculate_adherence :: "db \<Rightarrow> date \<Rightarrow> int \<Rightarrow> int \<Rightarrow> pyfloat" where
  "calculate_adherence db today user_id days =
     (let since = today - days
      in case find (\<lambda>p. plan_user_id p = user_id \<and> plan_is_active p) (plans db) of
           None \<Rightarrow> 0
         | Some plan \<Rightarrow>
             if total_tasks db plan since today = 0 then 1
             else py_round
                    (float_div (of_nat (completed_tasks db plan since today))
                       (of_nat (total_tasks db plan since today))) 2)"

text \<open>
  \<^verbatim>\<open>calculate_knowledge\<close>. The third criterion of the query is the Python expression
  \<^verbatim>\<open>Quiz.score is not None\<close>, an identity test on the column attribute object: it is
  evaluated when the query is built and is \<^verbatim>\<open>True\<close>, so it selects every row.
\<close>

definition calculate_knowledge :: "db \<Rightarrow> int \<Rightarrow> pyfloat" where
  "calculate_knowledge db user_id =
     (let quizzes =
            take 5 (sort_key (\<lambda>q. - quiz_created_at q)
              (filter (\<lambda>q. quiz_user_id q = user_id \<and> quiz_completed q \<and> True) (quizzes db)))
      in if quizzes = [] then 0
         else let avg_score =
                    float_div
                      (py_sum (map (\<lambda>q. case quiz_score q of None \<Rightarrow> 0 | Some s \<Rightarrow> s) quizzes))
                      (of_nat (length quizzes))
              in py_round avg_score 2)"

definition recent_checkins :: "db \<Rightarrow> date \<Rightarrow> int \<Rightarrow> nat" where
  "recent_checkins db today user_id =
     length (filter (\<lambda>c. checkin_user_id c = user_id \<and> today - 3 \<le> checkin_date c)
               (checkins db))"

definition get_user_status :: "db \<Rightarrow> date \<Rightarrow> int \<Rightarrow> user_status" where
  "get_user_status db today user_id =
     (let adherence = calculate_adherence db today user_id 7
      in if adherence < double_of (3 / 10) \<or> recent_checkins db today user_id = 0 then at_risk
         else if adherence < double_of (6 / 10) then recovering
         else active)"

section \<open>The check-in service (\<^verbatim>\<open>app/services/checkin_service.py\<close>)\<close>

definition add_or_update_rule :: "db \<Rightarrow> int \<Rightarrow> string \<Rightarrow> string \<Rightarrow> db" where
  "add_or_update_rule db user_id rule_type rule_value =
     (case find (\<lambda>r. rule_user_id r = user_id \<and> rule_rule_type r = rule_type) (memory_rules db) of
        Some existing \<Rightarrow>
          db\<lparr>memory_rules :=
               map (\<lambda>r. if rule_id r = rule_id existing
                         then r\<lparr>rule_confidence :=
                                  min 1 (float_add (rule_confidence existing) (double_of (1 / 10)))\<rparr>
                         else r) (memory_rules db)\<rparr>
      | None \<Rightarrow>
          db\<lparr>memory_rules := memory_rules db @
               [\<lparr>rule_id = next_id (map rule_id (memory_rules db)),
                 rule_user_id = user_id,
                 rule_rule_type = rule_type,
                 rule_rule_value = rule_value,
                 rule_confidence = double_of (5 / 10),
                 rule_is_active = True\<rparr>]\<rparr>)"





section \<open>The routes (\<^verbatim>\<open>app/api/v1/routes.py\<close>)\<close>

record task_ack =
  ack_message :: string
  ack_task_id :: int

text \<open>
  \<^verbatim>\<open>complete_task\<close>. The route receives the caller's \<open>user_id\<close> from the request header
  and the clock reading \<open>utcnow\<close>.
\<close>

definition complete_task :: "db \<Rightarrow> datetime \<Rightarrow> int \<Rightarrow> int \<Rightarrow> (error + task_ack) \<times> db" where
  "complete_task db utcnow task_id' user_id =
     (case find (\<lambda>t. task_id t = task_id') (daily_tasks db) of
        None \<Rightarrow> (Inl (HTTPException 404 ''Task not found''), db)
      | Some task \<Rightarrow>
          (Inr \<lparr>ack_message = ''Task completed'', ack_task_id = task_id'\<rparr>,
           db\<lparr>daily_tasks :=
                map (\<lambda>t. if task_id t = task_id task
                          then t\<lparr>task_status := COMPLETED, task_completed_at := Some utcnow\<rparr>
                          else t) (daily_tasks db)\<rparr>))"


section \<open>Vocabulary of the properties\<close>



text \<open>A sequence of \<open>n\<close> calls of \<^verbatim>\<open>_add_or_update_rule\<close> with the same arguments.\<close>

primrec reinforce :: "nat \<Rightarrow> db \<Rightarrow> int \<Rightarrow> string \<Rightarrow> string \<Rightarrow> db" where
  "reinforce 0 db user_id rule_type rule_value = db"
| "reinforce (Suc n) db user_id rule_type rule_value =
     add_or_update_rule (reinforce n db user_id rule_type rule_value) user_id rule_type rule_value"

section \<open>Example databases\<close>

definition db_empty :: db where
  "db_empty = \<lparr>commitments = [], premortem_risks = [], plans = [], daily_tasks = [],
     checkins = [], quizzes = [], memory_rules = []\<rparr>"

text \<open>
  User 1 committed on Monday 2026-11-02 (ordinal 739922) to a goal due on 2026-12-31.
\<close>

definition commitment_example :: commitment where
  "commitment_example =
     \<lparr>commitment_id = 1, commitment_user_id = 1, commitment_goal = ''Learn Rust'',
      commitment_target_date = 739981, commitment_weekly_hours = 10,
      commitment_baseline_level = None, commitment_learning_style = ''mixed'',
      commitment_is_active = True, commitment_created_at = 1793610000000000\<rparr>"

definition db_committed :: db where
  "db_committed = db_empty\<lparr>commitments := [commitment_example]\<rparr>"

text \<open>
  The same user requests a weekly plan on Wednesday 2026-11-04 and again on Wednesday
  2026-11-11, the content generator failing both times.
\<close>

definition db_week1 :: db where
  "db_week1 = snd (generate_weekly_plan (\<lambda>prompt. None) db_committed 739924 1 False)"

definition db_week2 :: db where
  "db_week2 = snd (generate_weekly_plan (\<lambda>prompt. None) db_week1 739931 1 False)"

text \<open>A plan of user 1 with four tasks, two of them completed, one dated after 2026-11-04.\<close>

definition plan_example :: plan where
  "plan_example =
     \<lparr>plan_id = 1, plan_user_id = 1, plan_week_start = 739922, plan_version = 1,
      plan_plan_json = \<lparr>pj_week_focus = None, pj_tasks = None, pj_micro_project = None,
                        pj_review_topics = None\<rparr>,
      plan_is_active = True\<rparr>"

definition task_example :: "int \<Rightarrow> date \<Rightarrow> task_status \<Rightarrow> daily_task" where
  "task_example i d st =
     \<lparr>task_id = i, task_plan_id = 1, task_date = d, task_task = ''Read'',
      task_timebox_min = 45, task_task_type = READING, task_status = st,
      task_started_at = None, task_completed_at = None\<rparr>"

definition db_tasks :: db where
  "db_tasks = db_committed
     \<lparr>plans := [plan_example],
      daily_tasks := [task_example 1 739922 COMPLETED, task_example 2 739923 COMPLETED,
                      task_example 3 739924 SKIPPED, task_example 4 739925 PENDING]\<rparr>"

text \<open>The same database with two check-ins of user 1, on 2026-11-04 and on 2026-11-10.\<close>

definition checkin_example :: "int \<Rightarrow> date \<Rightarrow> checkin" where
  "checkin_example i d =
     \<lparr>checkin_id = i, checkin_user_id = 1, checkin_date = d, checkin_yesterday = None,
      checkin_today = Some ''Read'', checkin_blockers = None, checkin_next_task = None,
      checkin_fallback_task = None, checkin_advice = None\<rparr>"

definition db_checked :: db where
  "db_checked = db_tasks\<lparr>checkins := [checkin_example 1 739924, checkin_example 2 739930]\<rparr>"

text \<open>Two completed quizzes of user 1, the older one without a score.\<close>

definition db_quizzes :: db where
  "db_quizzes = db_empty
     \<lparr>quizzes := [\<lparr>quiz_id = 1, quiz_user_id = 1, quiz_score = None, quiz_completed = True,
                   quiz_created_at = 100\<rparr>,
                  \<lparr>quiz_id = 2, quiz_user_id = 1, quiz_score = Some (double_of (8 / 10)),
                   quiz_completed = True, quiz_created_at = 200\<rparr>]\<rparr>"

text \<open>One rule of user 1 at confidence 0.5, active in the first database and not in the second.\<close>

definition db_rule_half :: db where
  "db_rule_half = db_empty
     \<lparr>memory_rules := [\<lparr>rule_id = 1, rule_user_id = 1, rule_rule_type = ''task_skip'',
                        rule_rule_value = ''User skipped learning session'',
                        rule_confidence = 1 / 2, rule_is_active = True\<rparr>]\<rparr>"

definition db_rule_inactive :: db where
  "db_rule_inactive = db_empty
     \<lparr>memory_rules := [\<lparr>rule_id = 1, rule_user_id = 1, rule_rule_type = ''task_skip'',
                        rule_rule_value = ''User skipped learning session'',
                        rule_confidence = 1 / 2, rule_is_active = False\<rparr>]\<rparr>"


definition payload_week :: plan_json where
  "payload_week =
     \<lparr>pj_week_focus = Some ''Ownership'',
      pj_tasks = Some
        [\<lparr>td_task = Some ''Borrow checker drills'', td_timebox_min = Some 45,
          td_type = Some ''practice'', td_day = Some 7\<rparr>,
         \<lparr>td_task = Some ''Recap'', td_timebox_min = Some 20,
          td_type = None, td_day = Some (- 3)\<rparr>,
         \<lparr>td_task = Some ''Quiz'', td_timebox_min = Some 20,
          td_type = Some ''quiz'', td_day = None\<rparr>],
      pj_micro_project = None,
      pj_review_topics = None\<rparr>"

section \<open>Facts about the number model\<close>

declare ilog2.simps [simp del]

lemma round_half_even_of_int: "round_half_even (of_int n) = n"
  by (simp add: round_half_even_def)

lemma round_half_even_eqI:
  assumes "\<bar>x - of_int n\<bar> < 1 / 2"
  shows "round_half_even x = n"
proof -
  have "\<lfloor>x\<rfloor> = n \<or> \<lfloor>x\<rfloor> = n - 1" using assms by linarith
  then show ?thesis
  proof
    assume "\<lfloor>x\<rfloor> = n"
    moreover have "x - of_int n < 1 / 2" using assms by linarith
    ultimately show ?thesis by (simp add: round_half_even_def)
  next
    assume f: "\<lfloor>x\<rfloor> = n - 1"
    have "1 / 2 < x - of_int (n - 1)" using assms by (simp; linarith)
    with f show ?thesis by (simp add: round_half_even_def)
  qed
qed

lemma round_half_even_lower: "\<lfloor>x\<rfloor> \<le> round_half_even x"
  by (simp add: round_half_even_def Let_def)

lemma round_half_even_upper: "round_half_even x \<le> \<lfloor>x\<rfloor> + 1"
  by (simp add: round_half_even_def Let_def)

lemma round_half_even_mono:
  assumes "x \<le> y"
  shows "round_half_even x \<le> round_half_even y"
proof (cases "\<lfloor>x\<rfloor> = \<lfloor>y\<rfloor>")
  case True
  then have "x - of_int \<lfloor>x\<rfloor> \<le> y - of_int \<lfloor>y\<rfloor>" using assms by simp
  with True show ?thesis by (auto simp: round_half_even_def Let_def)
next
  case False
  have "\<lfloor>x\<rfloor> \<le> \<lfloor>y\<rfloor>" using assms by (rule floor_mono)
  with False have "\<lfloor>x\<rfloor> + 1 \<le> \<lfloor>y\<rfloor>" by simp
  then show ?thesis
    using round_half_even_upper [of x] round_half_even_lower [of y] by linarith
qed

lemma pow2_less_iff: "(2::rat) powi a < 2 powi b \<longleftrightarrow> a < b"
proof
  assume l: "(2::rat) powi a < 2 powi b"
  show "a < b"
  proof (rule ccontr)
    assume "\<not> a < b"
    then have "b \<le> a" by simp
    then have "(2::rat) powi b \<le> 2 powi a" by (rule power_int_increasing) simp
    with l show False by simp
  qed
next
  assume "a < b"
  then show "(2::rat) powi a < 2 powi b" by (rule power_int_strict_increasing) simp
qed

lemma pow2_le_iff: "(2::rat) powi a \<le> 2 powi b \<longleftrightarrow> a \<le> b"
  using pow2_less_iff [of b a] by (auto simp: not_less [symmetric])

lemma ilog2_bounds:
  "0 < x \<Longrightarrow> 2 powi ilog2 x \<le> x \<and> x < 2 powi (ilog2 x + 1)"
proof (induction x rule: ilog2.induct)
  case (1 x)
  show ?case
  proof (cases "2 \<le> x")
    case True
    then have e: "ilog2 x = ilog2 (x / 2) + 1" using 1(3) by (subst ilog2.simps) simp
    have "2 powi ilog2 (x / 2) \<le> x / 2 \<and> x / 2 < 2 powi (ilog2 (x / 2) + 1)"
      using 1(1) 1(3) True by simp
    then show ?thesis unfolding e by (simp add: power_int_add field_simps)
  next
    case False
    show ?thesis
    proof (cases "x < 1")
      case True
      then have e: "ilog2 x = ilog2 (2 * x) - 1" using 1(3) False by (subst ilog2.simps) simp
      have "2 powi ilog2 (2 * x) \<le> 2 * x \<and> 2 * x < 2 powi (ilog2 (2 * x) + 1)"
        using 1(2) 1(3) True False by simp
      then show ?thesis unfolding e by (simp add: power_int_add power_int_diff field_simps)
    next
      case False
      with \<open>\<not> 2 \<le> x\<close> have "ilog2 x = 0" using 1(3) by (subst ilog2.simps) simp
      then show ?thesis using False \<open>\<not> 2 \<le> x\<close> by simp
    qed
  qed
qed

lemma ilog2_eqI:
  assumes "2 powi e \<le> x" and "x < 2 powi (e + 1)"
  shows "ilog2 x = e"
proof -
  have "(0::rat) < 2 powi e" by simp
  then have x: "0 < x" using assms(1) by linarith
  note b = ilog2_bounds [OF x]
  have "2 powi e < (2::rat) powi (ilog2 x + 1)" using assms(1) b by linarith
  then have 1: "e < ilog2 x + 1" by (simp only: pow2_less_iff)
  have "2 powi ilog2 x < (2::rat) powi (e + 1)" using assms(2) b by linarith
  then have 2: "ilog2 x < e + 1" by (simp only: pow2_less_iff)
  from 1 2 show ?thesis by simp
qed

lemma ilog2_mono:
  assumes "0 < x" and "x \<le> y"
  shows "ilog2 x \<le> ilog2 y"
proof -
  have y: "0 < y" using assms by simp
  have "2 powi ilog2 x \<le> x" using ilog2_bounds [OF assms(1)] by simp
  also have "x \<le> y" by fact
  also have "y < 2 powi (ilog2 y + 1)" using ilog2_bounds [OF y] by simp
  finally have "ilog2 x < ilog2 y + 1" by (simp only: pow2_less_iff)
  then show ?thesis by simp
qed

lemma double_of_pos:
  "0 < x \<Longrightarrow>
   double_of x = of_int (round_half_even (x / 2 powi (ilog2 x - 52))) * 2 powi (ilog2 x - 52)"
  by (simp add: double_of_def Let_def)

text \<open>
  Evaluation by certificate: given the exponent \<open>e\<close> and the significand \<open>n\<close>, three
  comparisons of rationals establish \<open>double_of x\<close>.
\<close>

lemma double_of_eqI:
  assumes "2 powi e \<le> x" and "x < 2 powi (e + 1)"
    and "\<bar>x / 2 powi (e - 52) - of_int n\<bar> < 1 / 2"
  shows "double_of x = of_int n * 2 powi (e - 52)"
proof -
  have "(0::rat) < 2 powi e" by simp
  then have x: "0 < x" using assms(1) by linarith
  have e: "ilog2 x = e" using assms(1,2) by (rule ilog2_eqI)
  show ?thesis
    unfolding double_of_pos [OF x] e using round_half_even_eqI [OF assms(3)] by simp
qed

lemma double_of_bounds:
  assumes x: "0 < x"
  shows "2 powi ilog2 x \<le> double_of x" and "double_of x \<le> 2 powi (ilog2 x + 1)"
proof -
  let ?e = "ilog2 x"
  let ?u = "(2::rat) powi (?e - 52)"
  have u: "0 < ?u" by simp
  have lo: "of_int (2 ^ 52) * ?u = 2 powi ?e"
    by (simp add: power_int_diff)
  have hi: "of_int (2 ^ 53) * ?u = 2 powi (?e + 1)"
    by (simp add: power_int_diff power_int_add)
  note b = ilog2_bounds [OF x]
  have "of_int (2 ^ 52) \<le> x / ?u"
    using b u lo by (simp add: pos_le_divide_eq del: of_int_power of_int_numeral)
  then have "round_half_even (of_int (2 ^ 52)) \<le> round_half_even (x / ?u)"
    by (rule round_half_even_mono)
  then have "(2 ^ 52 :: int) \<le> round_half_even (x / ?u)"
    by (simp only: round_half_even_of_int)
  then have "(of_int (2 ^ 52) :: rat) \<le> of_int (round_half_even (x / ?u))"
    by (simp only: of_int_le_iff)
  then have "of_int (2 ^ 52) * ?u \<le> of_int (round_half_even (x / ?u)) * ?u"
    using u by (simp only: mult_le_cancel_right_pos)
  then show "2 powi ?e \<le> double_of x"
    unfolding double_of_pos [OF x] lo .
  have "x / ?u \<le> of_int (2 ^ 53)"
    using b u hi by (simp add: pos_divide_le_eq del: of_int_power of_int_numeral)
  then have "round_half_even (x / ?u) \<le> round_half_even (of_int (2 ^ 53))"
    by (rule round_half_even_mono)
  then have "round_half_even (x / ?u) \<le> (2 ^ 53 :: int)"
    by (simp only: round_half_even_of_int)
  then have "(of_int (round_half_even (x / ?u)) :: rat) \<le> of_int (2 ^ 53)"
    by (simp only: of_int_le_iff)
  then have "of_int (round_half_even (x / ?u)) * ?u \<le> of_int (2 ^ 53) * ?u"
    using u by (simp only: mult_le_cancel_right_pos)
  then show "double_of x \<le> 2 powi (?e + 1)"
    unfolding double_of_pos [OF x] hi .
qed

lemma double_of_mono:
  assumes "0 \<le> x" and "x \<le> y"
  shows "double_of x \<le> double_of y"
proof (cases "x = 0")
  case True
  show ?thesis
  proof (cases "y = 0")
    case True
    with \<open>x = 0\<close> show ?thesis by simp
  next
    case False
    then have y: "0 < y" using assms by simp
    have "(0::rat) \<le> 2 powi ilog2 y" by simp
    also have "\<dots> \<le> double_of y" using y by (rule double_of_bounds)
    finally show ?thesis using True by (simp add: double_of_def)
  qed
next
  case False
  then have x: "0 < x" using assms by simp
  then have y: "0 < y" using assms by simp
  have le: "ilog2 x \<le> ilog2 y" using x assms(2) by (rule ilog2_mono)
  show ?thesis
  proof (cases "ilog2 x = ilog2 y")
    case True
    let ?u = "(2::rat) powi (ilog2 y - 52)"
    have u: "0 < ?u" by simp
    have "x / ?u \<le> y / ?u" using assms(2) u by (simp add: divide_right_mono)
    then have "round_half_even (x / ?u) \<le> round_half_even (y / ?u)"
      by (rule round_half_even_mono)
    then have "(of_int (round_half_even (x / ?u)) :: rat) * ?u
        \<le> of_int (round_half_even (y / ?u)) * ?u"
      using u by (simp only: mult_le_cancel_right_pos of_int_le_iff)
    then show ?thesis unfolding double_of_pos [OF x] double_of_pos [OF y] True .
  next
    case False
    with le have "ilog2 x + 1 \<le> ilog2 y" by simp
    then have "(2::rat) powi (ilog2 x + 1) \<le> 2 powi ilog2 y" by (simp only: pow2_le_iff)
    then show ?thesis
      using double_of_bounds(2) [OF x] double_of_bounds(1) [OF y] by linarith
  qed
qed

lemma round_half_even_error: "\<bar>of_int (round_half_even x) - x\<bar> \<le> 1 / 2"
proof -
  have "of_int \<lfloor>x\<rfloor> \<le> x" "x < of_int \<lfloor>x\<rfloor> + 1" by linarith+
  then show ?thesis by (auto simp: round_half_even_def Let_def abs_le_iff)
qed

text \<open>
  \<open>double_of x\<close> is a multiple of the unit in the last place of \<open>x\<close> and lies within half
  a unit of \<open>x\<close>.
\<close>

lemma double_of_nearest:
  assumes "0 < x"
  shows "\<bar>double_of x - x\<bar> \<le> 2 powi (ilog2 x - 53)"
proof -
  let ?u = "(2::rat) powi (ilog2 x - 52)"
  have u: "0 < ?u" by simp
  have "x / ?u * ?u = x" using u by simp
  then have "double_of x - x = (of_int (round_half_even (x / ?u)) - x / ?u) * ?u"
    unfolding double_of_pos [OF assms] by (simp only: left_diff_distrib)
  then have "\<bar>double_of x - x\<bar> = \<bar>of_int (round_half_even (x / ?u)) - x / ?u\<bar> * \<bar>?u\<bar>"
    by (simp only: abs_mult)
  also have "\<bar>?u\<bar> = ?u" using u by (simp only: abs_of_pos)
  finally have "\<bar>double_of x - x\<bar> = \<bar>of_int (round_half_even (x / ?u)) - x / ?u\<bar> * ?u" .
  also have "\<dots> \<le> (1 / 2) * ?u"
    using round_half_even_error [of "x / ?u"] u by (intro mult_right_mono) simp_all
  also have "\<dots> = 2 powi (ilog2 x - 53)"
    by (simp add: power_int_diff)
  finally show ?thesis .
qed

lemma double_of_0: "double_of 0 = 0"
  by (simp add: double_of_def)

lemma double_of_1: "double_of 1 = 1"
proof -
  have "double_of 1 = of_int 4503599627370496 * 2 powi (0 - 52)"
    by (rule double_of_eqI) simp_all
  then show ?thesis by simp
qed

lemma double_of_1_2: "double_of (1 / 2) = 1 / 2"
proof -
  have "double_of (1 / 2) = of_int 4503599627370496 * 2 powi (- 1 - 52)"
    by (rule double_of_eqI) simp_all
  then show ?thesis by simp
qed

text \<open>The float literals of the source, as the rationals they denote.\<close>

lemma double_of_1_10: "double_of (1 / 10) = 3602879701896397 / 36028797018963968"
proof -
  have "double_of (1 / 10) = of_int 7205759403792794 * 2 powi (- 4 - 52)"
    by (rule double_of_eqI) simp_all
  then show ?thesis by simp
qed

lemma double_of_1_5: "double_of (1 / 5) = 3602879701896397 / 18014398509481984"
proof -
  have "double_of (1 / 5) = of_int 7205759403792794 * 2 powi (- 3 - 52)"
    by (rule double_of_eqI) simp_all
  then show ?thesis by simp
qed

lemma double_of_3_10: "double_of (3 / 10) = 5404319552844595 / 18014398509481984"
proof -
  have "double_of (3 / 10) = of_int 5404319552844595 * 2 powi (- 2 - 52)"
    by (rule double_of_eqI) simp_all
  then show ?thesis by simp
qed

lemma double_of_2_5: "double_of (2 / 5) = 3602879701896397 / 9007199254740992"
proof -
  have "double_of (2 / 5) = of_int 7205759403792794 * 2 powi (- 2 - 52)"
    by (rule double_of_eqI) simp_all
  then show ?thesis by simp
qed

lemma double_of_3_5: "double_of (3 / 5) = 5404319552844595 / 9007199254740992"
proof -
  have "double_of (3 / 5) = of_int 5404319552844595 * 2 powi (- 1 - 52)"
    by (rule double_of_eqI) simp_all
  then show ?thesis by simp
qed

lemma double_of_7_10: "double_of (7 / 10) = 3152519739159347 / 4503599627370496"
proof -
  have "double_of (7 / 10) = of_int 6305039478318694 * 2 powi (- 1 - 52)"
    by (rule double_of_eqI) simp_all
  then show ?thesis by simp
qed

lemma double_of_4_5: "double_of (4 / 5) = 3602879701896397 / 4503599627370496"
proof -
  have "double_of (4 / 5) = of_int 7205759403792794 * 2 powi (- 1 - 52)"
    by (rule double_of_eqI) simp_all
  then show ?thesis by simp
qed

lemma double_of_17_20: "double_of (17 / 20) = 7656119366529843 / 9007199254740992"
proof -
  have "double_of (17 / 20) = of_int 7656119366529843 * 2 powi (- 1 - 52)"
    by (rule double_of_eqI) simp_all
  then show ?thesis by simp
qed

lemma double_of_9_10: "double_of (9 / 10) = 8106479329266893 / 9007199254740992"
proof -
  have "double_of (9 / 10) = of_int 8106479329266893 * 2 powi (- 1 - 52)"
    by (rule double_of_eqI) simp_all
  then show ?thesis by simp
qed

lemmas float_literals =
  double_of_0 double_of_1 double_of_1_2 double_of_1_10 double_of_1_5 double_of_3_10 double_of_2_5
  double_of_3_5 double_of_7_10 double_of_4_5 double_of_17_20 double_of_9_10

text \<open>The sums, quotients and roundings that the examples below evaluate.\<close>

lemma reinforce_sum_1: "double_of (21617278211378381 / 36028797018963968) = 5404319552844595 / 9007199254740992"
proof -
  have "double_of (21617278211378381 / 36028797018963968) = of_int 5404319552844595 * 2 powi (- 1 - 52)"
    by (rule double_of_eqI) simp_all
  then show ?thesis by simp
qed

lemma reinforce_sum_2: "double_of (25220157913274777 / 36028797018963968) = 3152519739159347 / 4503599627370496"
proof -
  have "double_of (25220157913274777 / 36028797018963968) = of_int 6305039478318694 * 2 powi (- 1 - 52)"
    by (rule double_of_eqI) simp_all
  then show ?thesis by simp
qed

lemma reinforce_sum_3: "double_of (28823037615171173 / 36028797018963968) = 7205759403792793 / 9007199254740992"
proof -
  have "double_of (28823037615171173 / 36028797018963968) = of_int 7205759403792793 * 2 powi (- 1 - 52)"
    by (rule double_of_eqI) simp_all
  then show ?thesis by simp
qed

lemma reinforce_sum_4: "double_of (32425917317067569 / 36028797018963968) = 2026619832316723 / 2251799813685248"
proof -
  have "double_of (32425917317067569 / 36028797018963968) = of_int 8106479329266892 * 2 powi (- 1 - 52)"
    by (rule double_of_eqI) simp_all
  then show ?thesis by simp
qed

lemma reinforce_sum_5: "double_of (36028797018963965 / 36028797018963968) = 9007199254740991 / 9007199254740992"
proof -
  have "double_of (36028797018963965 / 36028797018963968) = of_int 9007199254740991 * 2 powi (- 1 - 52)"
    by (rule double_of_eqI) simp_all
  then show ?thesis by simp
qed

lemma reinforce_sum_6: "double_of (39631676720860361 / 36028797018963968) = 4953959590107545 / 4503599627370496"
proof -
  have "double_of (39631676720860361 / 36028797018963968) = of_int 4953959590107545 * 2 powi (0 - 52)"
    by (rule double_of_eqI) simp_all
  then show ?thesis by simp
qed

lemma double_of_double_4_5: "double_of (3602879701896397 / 4503599627370496) = 3602879701896397 / 4503599627370496"
proof -
  have "double_of (3602879701896397 / 4503599627370496) = of_int 7205759403792794 * 2 powi (- 1 - 52)"
    by (rule double_of_eqI) simp_all
  then show ?thesis by simp
qed

lemma double_of_half_4_5: "double_of (3602879701896397 / 9007199254740992) = 3602879701896397 / 9007199254740992"
proof -
  have "double_of (3602879701896397 / 9007199254740992) = of_int 7205759403792794 * 2 powi (- 2 - 52)"
    by (rule double_of_eqI) simp_all
  then show ?thesis by simp
qed

lemma double_of_2_3: "double_of (2 / 3) = 6004799503160661 / 9007199254740992"
proof -
  have "double_of (2 / 3) = of_int 6004799503160661 * 2 powi (- 1 - 52)"
    by (rule double_of_eqI) simp_all
  then show ?thesis by simp
qed

lemma double_of_67_100: "double_of (67 / 100) = 6034823500676465 / 9007199254740992"
proof -
  have "double_of (67 / 100) = of_int 6034823500676465 * 2 powi (- 1 - 52)"
    by (rule double_of_eqI) simp_all
  then show ?thesis by simp
qed

lemma double_of_1_3: "double_of (1 / 3) = 6004799503160661 / 18014398509481984"
proof -
  have "double_of (1 / 3) = of_int 6004799503160661 * 2 powi (- 2 - 52)"
    by (rule double_of_eqI) simp_all
  then show ?thesis by simp
qed

lemma double_of_33_100: "double_of (33 / 100) = 5944751508129055 / 18014398509481984"
proof -
  have "double_of (33 / 100) = of_int 5944751508129055 * 2 powi (- 2 - 52)"
    by (rule double_of_eqI) simp_all
  then show ?thesis by simp
qed


section \<open>Facts about the services\<close>

lemma find_map_preserve:
  "(\<And>x. P (f x) = P x) \<Longrightarrow> find P (map f xs) = map_option f (find P xs)"
  by (induction xs) simp_all

lemma find_append_new:
  "find P xs = None \<Longrightarrow> P y \<Longrightarrow> find P (xs @ [y]) = Some y"
  by (induction xs) (simp_all split: if_splits)

lemma round_half_even_nonneg: "0 \<le> x \<Longrightarrow> 0 \<le> round_half_even x"
  using round_half_even_lower [of x] by (simp add: order_trans [of 0 "\<lfloor>x\<rfloor>"])

lemma double_of_nonneg: "0 \<le> x \<Longrightarrow> 0 \<le> double_of x"
  using double_of_mono [of 0 x] by (simp add: double_of_0)

lemma py_round_mono:
  assumes "0 \<le> x" and "x \<le> y"
  shows "py_round x n \<le> py_round y n"
proof -
  have "x * 10 ^ n \<le> y * 10 ^ n" using assms(2) by (simp add: mult_right_mono)
  then have le: "round_half_even (x * 10 ^ n) \<le> round_half_even (y * 10 ^ n)"
    by (rule round_half_even_mono)
  have "0 \<le> x * 10 ^ n" using assms(1) by simp
  then have "0 \<le> round_half_even (x * 10 ^ n)" by (rule round_half_even_nonneg)
  then have nn: "(0::rat) \<le> of_int (round_half_even (x * 10 ^ n)) / 10 ^ n" by simp
  have "(of_int (round_half_even (x * 10 ^ n)) :: rat) / 10 ^ n
      \<le> of_int (round_half_even (y * 10 ^ n)) / 10 ^ n"
    using le by (simp add: divide_right_mono)
  with nn show ?thesis unfolding py_round_def by (rule double_of_mono)
qed

lemma py_round_eqI:
  assumes "\<bar>x * 10 ^ n - of_int m\<bar> < 1 / 2"
  shows "py_round x n = double_of (of_int m / 10 ^ n)"
  unfolding py_round_def using round_half_even_eqI [OF assms] by simp

lemma adherence_ratio_mono:
  assumes "c \<le> c'"
  shows "py_round (float_div (of_nat c) (of_nat t)) 2
      \<le> py_round (float_div (of_nat c') (of_nat t)) 2"
proof -
  have nn: "(0::rat) \<le> of_nat c / of_nat t" by simp
  have "(of_nat c :: rat) / of_nat t \<le> of_nat c' / of_nat t"
    using assms by (simp add: divide_right_mono)
  with nn have "float_div (of_nat c) (of_nat t) \<le> float_div (of_nat c') (of_nat t)"
    unfolding float_div_def by (rule double_of_mono)
  moreover have "0 \<le> float_div (of_nat c) (of_nat t)"
    unfolding float_div_def using nn by (rule double_of_nonneg)
  ultimately show ?thesis by (rule py_round_mono [rotated])
qed

lemma week_starts: "get_week_start 739924 = 739922" "get_week_start 739931 = 739929"
  by (simp_all add: get_week_start_def weekday_def)


lemma no_commitment_valid: "AgentDecision no_commitment_decision = Inr no_commitment_decision"
  by (simp add: AgentDecision_def no_commitment_decision_def Signals_valid_def
      NextTask_valid_def)

subsection \<open>Completing a task\<close>

lemma complete_task_found:
  assumes "find (\<lambda>t. task_id t = tid) (daily_tasks db) = Some task"
  shows "complete_task db now tid u =
          (Inr \<lparr>ack_message = ''Task completed'', ack_task_id = tid\<rparr>,
           db\<lparr>daily_tasks :=
                map (\<lambda>t. if task_id t = tid
                          then t\<lparr>task_status := COMPLETED, task_completed_at := Some now\<rparr>
                          else t) (daily_tasks db)\<rparr>)"
proof -
  have "task_id task = tid" using assms by (auto simp: find_Some_iff)
  then show ?thesis using assms by (simp add: complete_task_def)
qed

lemma find_after_complete:
  assumes "find (\<lambda>t. task_id t = tid) (daily_tasks db) = Some task"
  shows "find (\<lambda>t. task_id t = tid) (daily_tasks (snd (complete_task db now tid u)))
         = Some (task\<lparr>task_status := COMPLETED, task_completed_at := Some now\<rparr>)"
proof -
  have id: "task_id task = tid" using assms by (auto simp: find_Some_iff)
  have "find (\<lambda>t. task_id t = tid)
          (map (\<lambda>t. if task_id t = tid
                     then t\<lparr>task_status := COMPLETED, task_completed_at := Some now\<rparr>
                     else t) (daily_tasks db))
        = map_option (\<lambda>t. if task_id t = tid
                     then t\<lparr>task_status := COMPLETED, task_completed_at := Some now\<rparr>
                     else t) (find (\<lambda>t. task_id t = tid) (daily_tasks db))"
    by (rule find_map_preserve) simp
  then show ?thesis using assms id by (simp add: complete_task_found [OF assms])
qed

subsection \<open>Materializing daily tasks\<close>

lemma create_daily_tasks_tables:
  "plans (create_daily_tasks db plan ts) = plans db"
  "commitments (create_daily_tasks db plan ts) = commitments db"
  "premortem_risks (create_daily_tasks db plan ts) = premortem_risks db"
  "checkins (create_daily_tasks db plan ts) = checkins db"
  "quizzes (create_daily_tasks db plan ts) = quizzes db"
  "memory_rules (create_daily_tasks db plan ts) = memory_rules db"
  by (induction ts arbitrary: db; simp add: Let_def)+



subsection \<open>Requesting a weekly plan\<close>

lemma generate_weekly_plan_no_commitment:
  assumes "find (\<lambda>c. commitment_user_id c = uid \<and> commitment_is_active c) (commitments db) = None"
  shows "generate_weekly_plan llm db today uid force = (Inr no_commitment_decision, db)"
  using assms by (simp add: generate_weekly_plan_def no_commitment_valid)

lemma generate_weekly_plan_existing:
  assumes "find (\<lambda>c. commitment_user_id c = uid \<and> commitment_is_active c) (commitments db) = Some c"
    and "find (\<lambda>p. plan_user_id p = uid \<and> plan_week_start p = get_week_start today
                    \<and> plan_is_active p) (plans db) = Some p"
  shows "generate_weekly_plan llm db today uid False = (plan_to_decision p c, db)"
  using assms by (simp add: generate_weekly_plan_def Let_def)

lemma generate_weekly_plan_created:
  assumes c: "find (\<lambda>c. commitment_user_id c = uid \<and> commitment_is_active c) (commitments db) = Some c"
    and p: "find (\<lambda>p. plan_user_id p = uid \<and> plan_week_start p = get_week_start today
                    \<and> plan_is_active p) (plans db) = None"
  shows "\<exists>plan. generate_weekly_plan llm db today uid force
               = (plan_to_decision plan c,
                  create_daily_tasks (db\<lparr>plans := plans db @ [plan]\<rparr>) plan
                    (case pj_tasks (plan_plan_json plan) of None \<Rightarrow> [] | Some ts \<Rightarrow> ts))
           \<and> plan_user_id plan = uid \<and> plan_week_start plan = get_week_start today
           \<and> plan_is_active plan \<and> plan_version plan = 1
           \<and> (\<exists>pr. plan_plan_json plan = (case llm pr of None \<Rightarrow> default_plan c | Some r \<Rightarrow> r))"
  apply (simp only: generate_weekly_plan_def Let_def c p option.case if_cancel)
  apply (rule exI)
  apply (rule conjI)
   apply (rule arg_cong2 [where f = Pair])
    apply (rule refl)
   apply (rule arg_cong [where f = "create_daily_tasks _ _"])
   prefer 2
   apply (simp, blast)
  apply simp
  done




lemma db_week1_plans:
  "plans db_week1 =
     [\<lparr>plan_id = 1, plan_user_id = 1, plan_week_start = 739922, plan_version = 1,
       plan_plan_json = default_plan commitment_example, plan_is_active = True\<rparr>]"
  by (simp add: db_week1_def generate_weekly_plan_def db_committed_def db_empty_def
      commitment_example_def Let_def week_starts next_id_def create_daily_tasks_tables)

lemma db_week1_commitments: "commitments db_week1 = [commitment_example]"
  by (simp add: db_week1_def generate_weekly_plan_def db_committed_def db_empty_def
      commitment_example_def Let_def create_daily_tasks_tables)

lemma find_filter: "find P xs = (case filter P xs of [] \<Rightarrow> None | x # _ \<Rightarrow> Some x)"
  by (induction xs) simp_all

lemma generate_weekly_plan_forced:
  assumes c: "find (\<lambda>c. commitment_user_id c = uid \<and> commitment_is_active c) (commitments db) = Some c"
  shows "\<exists>plan. plans (snd (generate_weekly_plan llm db today uid True))
          = (case find (\<lambda>p. plan_user_id p = uid \<and> plan_week_start p = get_week_start today
                            \<and> plan_is_active p) (plans db) of
               None \<Rightarrow> plans db
             | Some e \<Rightarrow> map (\<lambda>p. if plan_id p = plan_id e then p\<lparr>plan_is_active := False\<rparr> else p)
                          (plans db)) @ [plan]
        \<and> plan_user_id plan = uid \<and> plan_week_start plan = get_week_start today
        \<and> plan_is_active plan
        \<and> plan_version plan
            = (case find (\<lambda>p. plan_user_id p = uid \<and> plan_week_start p = get_week_start today
                            \<and> plan_is_active p) (plans db) of
                 None \<Rightarrow> 1 | Some e \<Rightarrow> plan_version e + 1)"
  using c by (simp add: generate_weekly_plan_def Let_def create_daily_tasks_tables)

lemma generate_weekly_plan_commitments:
  "commitments (snd (generate_weekly_plan llm db today uid force)) = commitments db"
  by (simp add: generate_weekly_plan_def Let_def create_daily_tasks_tables
      split: option.splits)

lemma forced_step:
  assumes c: "find (\<lambda>c. commitment_user_id c = uid \<and> commitment_is_active c) (commitments db) = Some c"
    and one: "length (filter (\<lambda>p. plan_user_id p = uid \<and> plan_is_active p) (plans db)) \<le> 1"
    and week: "list_all (\<lambda>p. plan_week_start p = get_week_start today)
                 (filter (\<lambda>p. plan_user_id p = uid \<and> plan_is_active p) (plans db))"
  shows "\<exists>plan. filter (\<lambda>p. plan_user_id p = uid \<and> plan_is_active p)
                  (plans (snd (generate_weekly_plan llm db today uid True))) = [plan]
        \<and> plan_week_start plan = get_week_start today
        \<and> plan_version plan
            = (case find (\<lambda>p. plan_user_id p = uid \<and> plan_week_start p = get_week_start today
                            \<and> plan_is_active p) (plans db) of
                 None \<Rightarrow> 1 | Some e \<Rightarrow> plan_version e + 1)"
proof -
  let ?A = "\<lambda>p. plan_user_id p = uid \<and> plan_is_active p"
  let ?P = "\<lambda>p. plan_user_id p = uid \<and> plan_week_start p = get_week_start today
                \<and> plan_is_active p"
  let ?old = "case find ?P (plans db) of
               None \<Rightarrow> plans db
             | Some e \<Rightarrow> map (\<lambda>p. if plan_id p = plan_id e then p\<lparr>plan_is_active := False\<rparr> else p)
                          (plans db)"
  obtain plan where plan:
    "plans (snd (generate_weekly_plan llm db today uid True)) = ?old @ [plan]"
    "plan_user_id plan = uid" "plan_week_start plan = get_week_start today"
    "plan_is_active plan"
    "plan_version plan = (case find ?P (plans db) of None \<Rightarrow> 1 | Some e \<Rightarrow> plan_version e + 1)"
    using generate_weekly_plan_forced [OF c, where today = today and llm = llm] by blast
  have AP: "filter ?A (plans db) = filter ?P (plans db)"
  proof (rule filter_cong [OF refl])
    fix p assume "p \<in> set (plans db)"
    then show "?A p = ?P p" using week by (auto simp: list_all_iff)
  qed
  have "filter ?A ?old = []"
  proof (cases "find ?P (plans db)")
    case None
    then have "filter ?P (plans db) = []" by (simp add: find_filter split: list.splits)
    then show ?thesis using None AP by simp
  next
    case (Some e)
    then obtain rest where "filter ?P (plans db) = e # rest"
      by (auto simp: find_filter split: list.splits)
    with one AP have fe: "filter ?A (plans db) = [e]" by (cases rest) simp_all
    define f :: "plan \<Rightarrow> plan"
      where "f = (\<lambda>p. if plan_id p = plan_id e then p\<lparr>plan_is_active := False\<rparr> else p)"
    have na: "\<not> ?A (f p)" if "p \<in> set (plans db)" for p
    proof (cases "?A p")
      case True
      then have "p \<in> set (filter ?A (plans db))" using that by simp
      then have "p = e" unfolding fe by simp
      then show ?thesis by (simp add: f_def)
    next
      case False
      then show ?thesis by (auto simp: f_def)
    qed
    have "\<forall>x \<in> set (map f (plans db)). \<not> ?A x"
    proof
      fix x assume "x \<in> set (map f (plans db))"
      then obtain p where "p \<in> set (plans db)" "x = f p" by auto
      then show "\<not> ?A x" using na by blast
    qed
    then have "filter ?A (map f (plans db)) = []"
      by (simp only: filter_empty_conv)
    then have "filter ?A (map (\<lambda>p. if plan_id p = plan_id e then p\<lparr>plan_is_active := False\<rparr> else p)
                 (plans db)) = []"
      unfolding f_def .
    then show ?thesis using Some by simp
  qed
  then have "filter ?A (plans (snd (generate_weekly_plan llm db today uid True))) = [plan]"
    unfolding plan(1) using plan(2,4) by simp
  then show ?thesis using plan(3,5) by blast
qed


subsection \<open>Reinforcing a memory rule\<close>

lemma add_or_update_rule_existing:
  assumes "find (\<lambda>r. rule_user_id r = uid \<and> rule_rule_type r = ty) (memory_rules db) = Some existing"
  shows "find (\<lambda>r. rule_user_id r = uid \<and> rule_rule_type r = ty)
           (memory_rules (add_or_update_rule db uid ty v))
         = Some (existing\<lparr>rule_confidence :=
                    min 1 (float_add (rule_confidence existing) (double_of (1 / 10)))\<rparr>)"
    and "length (memory_rules (add_or_update_rule db uid ty v)) = length (memory_rules db)"
proof -
  let ?f = "\<lambda>r. if rule_id r = rule_id existing
                 then r\<lparr>rule_confidence :=
                          min 1 (float_add (rule_confidence existing) (double_of (1 / 10)))\<rparr>
                 else r"
  have m: "memory_rules (add_or_update_rule db uid ty v) = map ?f (memory_rules db)"
    using assms by (simp add: add_or_update_rule_def)
  have "find (\<lambda>r. rule_user_id r = uid \<and> rule_rule_type r = ty) (map ?f (memory_rules db))
      = map_option ?f (find (\<lambda>r. rule_user_id r = uid \<and> rule_rule_type r = ty) (memory_rules db))"
    by (rule find_map_preserve) simp
  then show "find (\<lambda>r. rule_user_id r = uid \<and> rule_rule_type r = ty)
           (memory_rules (add_or_update_rule db uid ty v))
         = Some (existing\<lparr>rule_confidence :=
                    min 1 (float_add (rule_confidence existing) (double_of (1 / 10)))\<rparr>)"
    unfolding m using assms by simp
  show "length (memory_rules (add_or_update_rule db uid ty v)) = length (memory_rules db)"
    unfolding m by simp
qed

lemma add_or_update_rule_new:
  assumes "find (\<lambda>r. rule_user_id r = uid \<and> rule_rule_type r = ty) (memory_rules db) = None"
  shows "memory_rules (add_or_update_rule db uid ty v)
         = memory_rules db @
             [\<lparr>rule_id = next_id (map rule_id (memory_rules db)), rule_user_id = uid,
               rule_rule_type = ty, rule_rule_value = v, rule_confidence = 1 / 2,
               rule_is_active = True\<rparr>]"
  using assms by (simp add: add_or_update_rule_def double_of_1_2)

lemma add_or_update_rule_bounded:
  "\<exists>r. find (\<lambda>r. rule_user_id r = uid \<and> rule_rule_type r = ty)
          (memory_rules (add_or_update_rule db uid ty v)) = Some r
       \<and> rule_confidence r \<le> 1"
proof (cases "find (\<lambda>r. rule_user_id r = uid \<and> rule_rule_type r = ty) (memory_rules db)")
  case None
  have "find (\<lambda>r. rule_user_id r = uid \<and> rule_rule_type r = ty)
          (memory_rules db @
             [\<lparr>rule_id = next_id (map rule_id (memory_rules db)), rule_user_id = uid,
               rule_rule_type = ty, rule_rule_value = v, rule_confidence = 1 / 2,
               rule_is_active = True\<rparr>])
        = Some \<lparr>rule_id = next_id (map rule_id (memory_rules db)), rule_user_id = uid,
               rule_rule_type = ty, rule_rule_value = v, rule_confidence = 1 / 2,
               rule_is_active = True\<rparr>"
    using None by (rule find_append_new) simp
  then show ?thesis unfolding add_or_update_rule_new [OF None] by simp
next
  case (Some existing)
  show ?thesis unfolding add_or_update_rule_existing(1) [OF Some] by simp
qed

lemma reinforce_bounded:
  "0 < n \<Longrightarrow>
   \<exists>r. find (\<lambda>r. rule_user_id r = uid \<and> rule_rule_type r = ty)
          (memory_rules (reinforce n db uid ty v)) = Some r
       \<and> rule_confidence r \<le> 1"
  by (cases n) (simp_all add: add_or_update_rule_bounded)

lemma reinforce_five:
  "map rule_confidence (memory_rules (reinforce 5 db_rule_half 1 ''task_skip'' ''again''))
     = [1 - 1 / 2 ^ 53]"
  by (simp add: eval_nat_numeral add_or_update_rule_def db_rule_half_def db_empty_def
      float_add_def double_of_1_10 reinforce_sum_1 reinforce_sum_2 reinforce_sum_3
      reinforce_sum_4 reinforce_sum_5)

lemma reinforce_six:
  "map rule_confidence (memory_rules (reinforce 6 db_rule_half 1 ''task_skip'' ''again''))
     = [1]"
  by (simp add: eval_nat_numeral add_or_update_rule_def db_rule_half_def db_empty_def
      float_add_def double_of_1_10 reinforce_sum_1 reinforce_sum_2 reinforce_sum_3
      reinforce_sum_4 reinforce_sum_5 reinforce_sum_6)

section \<open>The properties of the specification\<close>

subsection \<open>C1: one active plan per user\<close>

text \<open>
  C1. The claim: at most one plan of a user is active at any time, because
  \<^verbatim>\<open>generate_weekly_plan\<close> deactivates whatever plan was active, also one of another
  week. The code looks for the plan to deactivate among the active plans of the current
  week only. User 1 requests a plan on Wednesday 2026-11-04 and again on Wednesday
  2026-11-11: the plan of the first week stays active beside the plan of the second, both
  at version 1, and \<^verbatim>\<open>get_today_tasks\<close>, which reads the first active plan, returns no
  task for 2026-11-11.
\<close>

theorem second_week_leaves_two_active_plans:
  "map (\<lambda>p. (plan_id p, plan_week_start p, plan_version p, plan_is_active p)) (plans db_week2)
     = [(1, 739922, 1, True), (2, 739929, 1, True)]
   \<and> length (filter (\<lambda>p. plan_user_id p = 1 \<and> plan_is_active p) (plans db_week2)) = 2
   \<and> map task_date (filter (\<lambda>t. task_plan_id t = 2) (daily_tasks db_week2))
       = [739929, 739930, 739931, 739932, 739933]
   \<and> get_today_tasks db_week2 739931 1 = []"
  by (simp add: db_week2_def db_week1_def generate_weekly_plan_def db_committed_def db_empty_def
      commitment_example_def Let_def week_starts next_id_def default_plan_def TaskType_def
      get_today_tasks_def)

subsection \<open>C2: the knowledge score\<close>

lemma py_round_0_4: "py_round (3602879701896397 / 9007199254740992) 2 = double_of (2 / 5)"
  using py_round_eqI [of "3602879701896397 / 9007199254740992" 2 40] by simp

text \<open>
  C2. The claim: \<^verbatim>\<open>calculate_knowledge\<close> is the mean, rounded to two decimals, of the
  scores of the five most recent completed quizzes, a quiz without a score being left out
  of the sum and of the count. In the code the criterion meant to exclude such quizzes
  selects every row, and \<^verbatim>\<open>q.score or 0\<close> counts a missing score as 0. With two completed
  quizzes, one without a score and one scored 0.8, the result is 0.4 and not 0.8.
\<close>

theorem calculate_knowledge_counts_unscored:
  "calculate_knowledge db_quizzes 1 = double_of (4 / 10)
   \<and> calculate_knowledge db_quizzes 1 \<noteq> double_of (8 / 10)"
  by (simp add: calculate_knowledge_def db_quizzes_def db_empty_def py_sum_def float_add_def
      float_div_def double_of_4_5 double_of_double_4_5 double_of_half_4_5 py_round_0_4
      double_of_2_5)

subsection \<open>C3: records that are not found\<close>




subsection \<open>C4: the adherence score\<close>

lemma py_round_2_3: "py_round (6004799503160661 / 9007199254740992) 2 = double_of (67 / 100)"
  using py_round_eqI [of "6004799503160661 / 9007199254740992" 2 67] by simp

lemma py_round_1_3: "py_round (6004799503160661 / 18014398509481984) 2 = double_of (33 / 100)"
  using py_round_eqI [of "6004799503160661 / 18014398509481984" 2 33] by simp

text \<open>
  C4. \<^verbatim>\<open>calculate_adherence\<close> is 0.0 when the user has no active plan. Otherwise, over the
  tasks of the first active plan dated from \<open>today - days\<close> to \<open>today\<close>, both included,
  it is 1.0 when there is no such task and \<^verbatim>\<open>round(completed / total, 2)\<close> when there is
  one; for a fixed total that value does not decrease when the completed count grows.
\<close>

theorem calculate_adherence_cases:
  "(find (\<lambda>p. plan_user_id p = uid \<and> plan_is_active p) (plans db) = None
      \<longrightarrow> calculate_adherence db today uid days = 0)
   \<and> (find (\<lambda>p. plan_user_id p = uid \<and> plan_is_active p) (plans db) = Some plan
       \<and> total_tasks db plan (today - days) today = 0
      \<longrightarrow> calculate_adherence db today uid days = 1)
   \<and> (find (\<lambda>p. plan_user_id p = uid \<and> plan_is_active p) (plans db) = Some plan
       \<and> 0 < total_tasks db plan (today - days) today
      \<longrightarrow> calculate_adherence db today uid days
          = py_round (float_div (of_nat (completed_tasks db plan (today - days) today))
                        (of_nat (total_tasks db plan (today - days) today))) 2)
   \<and> (c \<le> c' \<longrightarrow>
        py_round (float_div (of_nat c) (of_nat t)) 2
          \<le> py_round (float_div (of_nat c') (of_nat t)) 2)"
  using adherence_ratio_mono [of c c' t] by (simp add: calculate_adherence_def Let_def)

theorem calculate_adherence_cases_witness:
  "calculate_adherence db_empty 739924 1 7 = 0
   \<and> total_tasks db_tasks plan_example (739000 - 7) 739000 = 0
   \<and> calculate_adherence db_tasks 739000 1 7 = 1
   \<and> total_tasks db_tasks plan_example (739924 - 7) 739924 = 3
   \<and> completed_tasks db_tasks plan_example (739924 - 7) 739924 = 2
   \<and> calculate_adherence db_tasks 739924 1 7 = double_of (67 / 100)
   \<and> double_of (33 / 100) \<le> double_of (67 / 100)"
proof -
  have t0: "total_tasks db_tasks plan_example (739000 - 7) 739000 = 0"
    by (simp add: total_tasks_def db_tasks_def db_committed_def db_empty_def task_example_def
        plan_example_def)
  have t3: "total_tasks db_tasks plan_example (739924 - 7) 739924 = 3"
    by (simp add: total_tasks_def db_tasks_def db_committed_def db_empty_def task_example_def
        plan_example_def)
  have c2: "completed_tasks db_tasks plan_example (739924 - 7) 739924 = 2"
    by (simp add: completed_tasks_def db_tasks_def db_committed_def db_empty_def
        task_example_def plan_example_def)
  have f: "find (\<lambda>p. plan_user_id p = 1 \<and> plan_is_active p) (plans db_tasks) = Some plan_example"
    by (simp add: db_tasks_def db_committed_def db_empty_def plan_example_def)
  have e: "find (\<lambda>p. plan_user_id p = 1 \<and> plan_is_active p) (plans db_empty) = None"
    by (simp add: db_empty_def)
  have r1: "py_round (float_div (of_nat 1) (of_nat 3)) 2 = double_of (33 / 100)"
    by (simp add: float_div_def double_of_1_3 py_round_1_3)
  have r2: "py_round (float_div (of_nat 2) (of_nat 3)) 2 = double_of (67 / 100)"
    by (simp add: float_div_def double_of_2_3 py_round_2_3)
  show ?thesis
    using calculate_adherence_cases [of 1 db_empty 739924 7 plan_example 1 2 3]
      calculate_adherence_cases [of 1 db_tasks 739000 7 plan_example 1 2 3]
      calculate_adherence_cases [of 1 db_tasks 739924 7 plan_example 1 2 3]
    unfolding r1 r2 using t0 t3 c2 f e r2 by simp
qed

subsection \<open>C5: the adaptation policy\<close>

text \<open>
  C5. \<open>determine_adjustment\<close> is a total function of three floats that applies the rule
  table in priority order: adherence below 0.3 gives \<open>reduce_scope\<close>; otherwise retention
  below 0.5 gives \<open>repeat_concepts\<close>; otherwise knowledge and adherence both above 0.8
  give \<open>increase_challenge\<close>; otherwise \<open>keep\<close>. On the four inputs of the test suite:
  \<open>(0.2, 0.5, 0.3)\<close> gives \<open>reduce_scope\<close>, \<open>(0.9, 0.85, 0.8)\<close> gives
  \<open>increase_challenge\<close>, \<open>(0.7, 0.6, 0.6)\<close> gives \<open>keep\<close> and \<open>(0.7, 0.5, 0.3)\<close> gives
  \<open>repeat_concepts\<close>.
\<close>

theorem determine_adjustment_rule_table:
  "(determine_adjustment a k r = reduce_scope \<longleftrightarrow> a < double_of (3 / 10))
   \<and> (determine_adjustment a k r = repeat_concepts \<longleftrightarrow>
        \<not> a < double_of (3 / 10) \<and> r < double_of (5 / 10))
   \<and> (determine_adjustment a k r = increase_challenge \<longleftrightarrow>
        \<not> a < double_of (3 / 10) \<and> \<not> r < double_of (5 / 10)
        \<and> double_of (8 / 10) < k \<and> double_of (8 / 10) < a)
   \<and> (determine_adjustment a k r = keep \<longleftrightarrow>
        \<not> a < double_of (3 / 10) \<and> \<not> r < double_of (5 / 10)
        \<and> \<not> (double_of (8 / 10) < k \<and> double_of (8 / 10) < a))
   \<and> determine_adjustment (double_of (2 / 10)) (double_of (5 / 10)) (double_of (3 / 10))
        = reduce_scope
   \<and> determine_adjustment (double_of (9 / 10)) (double_of (85 / 100)) (double_of (8 / 10))
        = increase_challenge
   \<and> determine_adjustment (double_of (7 / 10)) (double_of (6 / 10)) (double_of (6 / 10))
        = keep
   \<and> determine_adjustment (double_of (7 / 10)) (double_of (5 / 10)) (double_of (3 / 10))
        = repeat_concepts"
  by (simp add: determine_adjustment_def LOW_ADHERENCE_THRESHOLD_def
      LOW_RETENTION_THRESHOLD_def float_literals)

subsection \<open>C6: the status of a user\<close>

text \<open>
  C6. \<^verbatim>\<open>get_user_status\<close> is a total function into the three statuses. It is \<open>at_risk\<close>
  whenever the user has no check-in dated within the last three days, whatever the
  adherence; otherwise \<open>at_risk\<close> when the adherence is below 0.3, otherwise \<open>recovering\<close>
  when it is below 0.6, otherwise \<open>active\<close>.
\<close>

theorem get_user_status_total:
  "get_user_status db today uid =
     (if recent_checkins db today uid = 0 then at_risk
      else if calculate_adherence db today uid 7 < double_of (3 / 10) then at_risk
      else if calculate_adherence db today uid 7 < double_of (6 / 10) then recovering
      else active)
   \<and> (get_user_status db today uid = active \<or> get_user_status db today uid = at_risk
        \<or> get_user_status db today uid = recovering)"
proof -
  have "get_user_status db today uid = active \<or> get_user_status db today uid = at_risk
        \<or> get_user_status db today uid = recovering"
    by (cases "get_user_status db today uid") simp_all
  then show ?thesis by (simp add: get_user_status_def)
qed

lemma db_checked_adherence:
  "calculate_adherence db_checked 739924 1 7 = double_of (67 / 100)"
  "calculate_adherence db_checked 739925 1 7 = 1 / 2"
  "calculate_adherence db_checked 739931 1 7 = 0"
  "calculate_adherence db_tasks 739924 1 7 = double_of (67 / 100)"
proof -
  have half: "py_round (1 / 2) 2 = 1 / 2"
    using py_round_eqI [of "1 / 2" 2 50] by (simp add: double_of_1_2)
  have zero: "py_round 0 2 = 0"
    by (simp add: py_round_def round_half_even_def double_of_0)
  show "calculate_adherence db_checked 739924 1 7 = double_of (67 / 100)"
    "calculate_adherence db_tasks 739924 1 7 = double_of (67 / 100)"
    by (simp_all add: calculate_adherence_def total_tasks_def completed_tasks_def db_checked_def
        db_tasks_def db_committed_def db_empty_def task_example_def plan_example_def
        float_div_def double_of_2_3 py_round_2_3)
  show "calculate_adherence db_checked 739925 1 7 = 1 / 2"
    by (simp add: calculate_adherence_def total_tasks_def completed_tasks_def db_checked_def
        db_tasks_def db_committed_def db_empty_def task_example_def plan_example_def
        float_div_def double_of_1_2 half)
  show "calculate_adherence db_checked 739931 1 7 = 0"
    by (simp add: calculate_adherence_def total_tasks_def completed_tasks_def db_checked_def
        db_tasks_def db_committed_def db_empty_def task_example_def plan_example_def
        float_div_def double_of_0 zero)
qed

theorem get_user_status_total_witness:
  "recent_checkins db_tasks 739924 1 = 0
   \<and> calculate_adherence db_tasks 739924 1 7 = double_of (67 / 100)
   \<and> get_user_status db_tasks 739924 1 = at_risk
   \<and> get_user_status db_checked 739924 1 = active
   \<and> get_user_status db_checked 739925 1 = recovering
   \<and> recent_checkins db_checked 739931 1 = 1
   \<and> get_user_status db_checked 739931 1 = at_risk"
proof -
  have r: "recent_checkins db_tasks 739924 1 = 0" "recent_checkins db_checked 739924 1 = 2"
    "recent_checkins db_checked 739925 1 = 2" "recent_checkins db_checked 739931 1 = 1"
    by (simp_all add: recent_checkins_def db_checked_def db_tasks_def db_committed_def
        db_empty_def checkin_example_def)
  show ?thesis
    using get_user_status_total [of db_tasks 739924 1]
      get_user_status_total [of db_checked 739924 1]
      get_user_status_total [of db_checked 739925 1]
      get_user_status_total [of db_checked 739931 1]
    by (simp add: r db_checked_adherence double_of_3_10 double_of_3_5 double_of_67_100)
qed

subsection \<open>C7: reinforcing a memory rule\<close>

text \<open>
  C7, as stated, fails twice. A rule of the pair that is not active is reinforced and
  no rule is inserted, although no active rule of the pair exists: the lookup does not
  read the active flag. And five reinforcements from 0.5 end at
  \<open>1 - 2\<^sup>-\<^sup>5\<^sup>3\<close> (0.9999999999999999), not at 1.0: the float sums 0.7 + 0.1, 0.8 + 0.1
  and 0.9 + 0.1 each round below the decimal.
\<close>

theorem reinforcement_counterexample:
  "filter rule_is_active (memory_rules db_rule_inactive) = []
   \<and> map (\<lambda>r. (rule_rule_value r, rule_confidence r, rule_is_active r))
        (memory_rules (add_or_update_rule db_rule_inactive 1 ''task_skip'' ''Skipped again''))
      = [(''User skipped learning session'', double_of (6 / 10), False)]
   \<and> map rule_confidence (memory_rules (reinforce 5 db_rule_half 1 ''task_skip'' ''again''))
      \<noteq> [1]"
proof -
  have "map (\<lambda>r. (rule_rule_value r, rule_confidence r, rule_is_active r))
        (memory_rules (add_or_update_rule db_rule_inactive 1 ''task_skip'' ''Skipped again''))
      = [(''User skipped learning session'', double_of (6 / 10), False)]"
    by (simp add: add_or_update_rule_def db_rule_inactive_def db_empty_def float_add_def
        double_of_1_10 reinforce_sum_1 double_of_3_5)
  then show ?thesis by (simp add: reinforce_five db_rule_inactive_def db_empty_def)
qed

text \<open>
  C7, amended. When the first rule with the given user and rule type is active,
  \<^verbatim>\<open>_add_or_update_rule\<close> reinforces it: its confidence becomes
  \<^verbatim>\<open>min(1.0, confidence + 0.1)\<close> in float arithmetic, its value and its active flag stay
  as they are, and no rule is inserted. When no rule with that pair exists, a rule with
  confidence 0.5, the supplied value and the active flag set is appended. After any
  positive number of reinforcements the confidence of the rule is at most 1.0. Five
  reinforcements from 0.5 end at \<open>1 - 2\<^sup>-\<^sup>5\<^sup>3\<close>, the sixth at exactly 1.0.
\<close>

theorem add_or_update_rule_reinforces:
  "(find (\<lambda>r. rule_user_id r = uid \<and> rule_rule_type r = ty) (memory_rules db) = Some existing
    \<and> rule_is_active existing \<longrightarrow>
      find (\<lambda>r. rule_user_id r = uid \<and> rule_rule_type r = ty)
        (memory_rules (add_or_update_rule db uid ty v))
      = Some (existing\<lparr>rule_confidence :=
                 min 1 (float_add (rule_confidence existing) (double_of (1 / 10)))\<rparr>)
      \<and> length (memory_rules (add_or_update_rule db uid ty v)) = length (memory_rules db))
   \<and> (find (\<lambda>r. rule_user_id r = uid \<and> rule_rule_type r = ty) (memory_rules db) = None \<longrightarrow>
      memory_rules (add_or_update_rule db uid ty v)
      = memory_rules db @
          [\<lparr>rule_id = next_id (map rule_id (memory_rules db)), rule_user_id = uid,
            rule_rule_type = ty, rule_rule_value = v, rule_confidence = 1 / 2,
            rule_is_active = True\<rparr>])
   \<and> (0 < n \<longrightarrow>
      (\<exists>r. find (\<lambda>r. rule_user_id r = uid \<and> rule_rule_type r = ty)
             (memory_rules (reinforce n db uid ty v)) = Some r
          \<and> rule_confidence r \<le> 1))
   \<and> map rule_confidence (memory_rules (reinforce 5 db_rule_half 1 ''task_skip'' ''again''))
      = [1 - 1 / 2 ^ 53]
   \<and> map rule_confidence (memory_rules (reinforce 6 db_rule_half 1 ''task_skip'' ''again''))
      = [1]"
  using add_or_update_rule_existing [of uid ty db existing v]
    add_or_update_rule_new [of uid ty db v] reinforce_bounded [of n uid ty db v]
    reinforce_five reinforce_six
  by blast

lemma reinforce_once: "min 1 (float_add (1 / 2) (double_of (1 / 10))) = double_of (6 / 10)"
  by (simp add: float_add_def double_of_1_10 reinforce_sum_1 double_of_3_5)

theorem add_or_update_rule_reinforces_witness:
  "find (\<lambda>r. rule_user_id r = 1 \<and> rule_rule_type r = ''task_skip'')
     (memory_rules (add_or_update_rule db_rule_half 1 ''task_skip'' ''Skipped again''))
     = Some \<lparr>rule_id = 1, rule_user_id = 1, rule_rule_type = ''task_skip'',
              rule_rule_value = ''User skipped learning session'',
              rule_confidence = double_of (6 / 10), rule_is_active = True\<rparr>
   \<and> memory_rules (add_or_update_rule db_empty 1 ''task_skip'' ''Skipped again'')
     = [\<lparr>rule_id = 1, rule_user_id = 1, rule_rule_type = ''task_skip'',
         rule_rule_value = ''Skipped again'', rule_confidence = 1 / 2, rule_is_active = True\<rparr>]
   \<and> (0::nat) < 5
   \<and> (\<exists>r. find (\<lambda>r. rule_user_id r = 1 \<and> rule_rule_type r = ''task_skip'')
            (memory_rules (reinforce 5 db_empty 1 ''task_skip'' ''Skipped again'')) = Some r
          \<and> rule_confidence r \<le> 1)"
proof -
  have f: "find (\<lambda>r. rule_user_id r = 1 \<and> rule_rule_type r = ''task_skip'') (memory_rules db_rule_half)
      = Some \<lparr>rule_id = 1, rule_user_id = 1, rule_rule_type = ''task_skip'',
               rule_rule_value = ''User skipped learning session'',
               rule_confidence = 1 / 2, rule_is_active = True\<rparr>"
    by (simp add: db_rule_half_def db_empty_def)
  have e: "find (\<lambda>r. rule_user_id r = 1 \<and> rule_rule_type r = ''task_skip'') (memory_rules db_empty)
      = None"
    by (simp add: db_empty_def)
  have a: "find (\<lambda>r. rule_user_id r = 1 \<and> rule_rule_type r = ''task_skip'')
     (memory_rules (add_or_update_rule db_rule_half 1 ''task_skip'' ''Skipped again''))
     = Some \<lparr>rule_id = 1, rule_user_id = 1, rule_rule_type = ''task_skip'',
              rule_rule_value = ''User skipped learning session'',
              rule_confidence = double_of (6 / 10), rule_is_active = True\<rparr>"
    using add_or_update_rule_reinforces
      [of 1 "''task_skip''" db_rule_half
        "\<lparr>rule_id = 1, rule_user_id = 1, rule_rule_type = ''task_skip'',
          rule_rule_value = ''User skipped learning session'',
          rule_confidence = 1 / 2, rule_is_active = True\<rparr>"
        "''Skipped again''" 5] f
    by (simp add: reinforce_once)
  have b: "memory_rules (add_or_update_rule db_empty 1 ''task_skip'' ''Skipped again'')
     = [\<lparr>rule_id = 1, rule_user_id = 1, rule_rule_type = ''task_skip'',
         rule_rule_value = ''Skipped again'', rule_confidence = 1 / 2, rule_is_active = True\<rparr>]"
    using add_or_update_rule_reinforces
      [of 1 "''task_skip''" db_empty _ "''Skipped again''" 5] e
    by (simp add: db_empty_def next_id_def)
  have c: "\<exists>r. find (\<lambda>r. rule_user_id r = 1 \<and> rule_rule_type r = ''task_skip'')
            (memory_rules (reinforce 5 db_empty 1 ''task_skip'' ''Skipped again'')) = Some r
          \<and> rule_confidence r \<le> 1"
    using add_or_update_rule_reinforces
      [of 1 "''task_skip''" db_empty _ "''Skipped again''" 5]
    by simp
  from a b c show ?thesis by simp
qed

subsection \<open>C8: a plan request without force\<close>

text \<open>
  C8. When the user has an active commitment and an active plan whose week start is the
  Monday on or before today, \<^verbatim>\<open>generate_weekly_plan\<close> without force returns the decision
  built from that plan and leaves the database as it is. A second request without force
  in the same week therefore has the outcome of the first (the same decision, whose
  reason carries the plan version) and leaves the database of the first: no plan and no
  daily task is added and no plan is deactivated.
\<close>

theorem generate_weekly_plan_idempotent:
  "(find (\<lambda>c. commitment_user_id c = uid \<and> commitment_is_active c) (commitments db) = Some c
    \<and> find (\<lambda>p. plan_user_id p = uid \<and> plan_week_start p = get_week_start today
                \<and> plan_is_active p) (plans db) = Some p
    \<longrightarrow> generate_weekly_plan llm db today uid False = (plan_to_decision p c, db))
   \<and> (get_week_start today' = get_week_start today
    \<longrightarrow> generate_weekly_plan llm' (snd (generate_weekly_plan llm db today uid False)) today' uid
          False
        = generate_weekly_plan llm db today uid False)"
proof (intro conjI impI)
  assume "find (\<lambda>c. commitment_user_id c = uid \<and> commitment_is_active c) (commitments db) = Some c
    \<and> find (\<lambda>p. plan_user_id p = uid \<and> plan_week_start p = get_week_start today
                \<and> plan_is_active p) (plans db) = Some p"
  then show "generate_weekly_plan llm db today uid False = (plan_to_decision p c, db)"
    by (simp add: generate_weekly_plan_existing)
next
  assume w: "get_week_start today' = get_week_start today"
  let ?C = "\<lambda>c. commitment_user_id c = uid \<and> commitment_is_active c"
  let ?P = "\<lambda>p. plan_user_id p = uid \<and> plan_week_start p = get_week_start today
                \<and> plan_is_active p"
  show "generate_weekly_plan llm' (snd (generate_weekly_plan llm db today uid False)) today' uid
          False
        = generate_weekly_plan llm db today uid False"
  proof (cases "find ?C (commitments db)")
    case None
    then show ?thesis by (simp add: generate_weekly_plan_no_commitment)
  next
    case (Some c)
    show ?thesis
    proof (cases "find ?P (plans db)")
      case (Some p)
      have 1: "generate_weekly_plan llm db today uid False = (plan_to_decision p c, db)"
        using \<open>find ?C (commitments db) = Some c\<close> Some by (rule generate_weekly_plan_existing)
      have 2: "generate_weekly_plan llm' db today' uid False = (plan_to_decision p c, db)"
        using \<open>find ?C (commitments db) = Some c\<close> Some
        by (intro generate_weekly_plan_existing) (simp_all add: w)
      show ?thesis unfolding 1 using 2 by simp
    next
      case None
      obtain plan where plan: "plan_user_id plan = uid"
          "plan_week_start plan = get_week_start today" "plan_is_active plan"
        and r: "generate_weekly_plan llm db today uid False
               = (plan_to_decision plan c,
                  create_daily_tasks (db\<lparr>plans := plans db @ [plan]\<rparr>) plan
                    (case pj_tasks (plan_plan_json plan) of None \<Rightarrow> [] | Some ts \<Rightarrow> ts))"
        using generate_weekly_plan_created
          [OF \<open>find ?C (commitments db) = Some c\<close> None, of llm False]
        by blast
      define ts where "ts = (case pj_tasks (plan_plan_json plan) of None \<Rightarrow> [] | Some ts \<Rightarrow> ts)"
      note r = r [folded ts_def]
      let ?db1 = "create_daily_tasks (db\<lparr>plans := plans db @ [plan]\<rparr>) plan ts"
      have c1: "find ?C (commitments ?db1) = Some c"
        using \<open>find ?C (commitments db) = Some c\<close> by (simp add: create_daily_tasks_tables)
      have "find ?P (plans db @ [plan]) = Some plan"
        using None plan by (intro find_append_new) simp_all
      then have p1: "find (\<lambda>p. plan_user_id p = uid \<and> plan_week_start p = get_week_start today'
                \<and> plan_is_active p) (plans ?db1) = Some plan"
        by (simp add: create_daily_tasks_tables w)
      have "generate_weekly_plan llm' ?db1 today' uid False = (plan_to_decision plan c, ?db1)"
        using c1 p1 by (rule generate_weekly_plan_existing)
      then show ?thesis unfolding r by simp
    qed
  qed
qed

lemma plan_to_decision_week1:
  "plan_to_decision
     \<lparr>plan_id = 1, plan_user_id = 1, plan_week_start = 739922, plan_version = 1,
      plan_plan_json = default_plan commitment_example, plan_is_active = True\<rparr>
     commitment_example
   = Inr \<lparr>reason = ''Week 1: Getting started with Learn Rust'',
          advice = None,
          signals = \<lparr>sig_adherence = 1, sig_knowledge = 0, sig_retention = 0,
                     sig_status = active\<rparr>,
          action = \<lparr>act_plan_adjustment = keep, act_risk_mitigation = []\<rparr>,
          next_tasks =
            [\<lparr>nt_task = ''Review fundamentals'', nt_timebox_min = 45, nt_type = ''reading''\<rparr>,
             \<lparr>nt_task = ''Practice exercise 1'', nt_timebox_min = 30, nt_type = ''coding''\<rparr>,
             \<lparr>nt_task = ''Continue learning'', nt_timebox_min = 45, nt_type = ''reading''\<rparr>],
          resources_used = [],
          quality_score = 1,
          quality_flags = []\<rparr>"
  by (simp add: plan_to_decision_def default_plan_def commitment_example_def Let_def
      AgentDecision_def Signals_valid_def NextTask_valid_def str_int_def)

theorem generate_weekly_plan_idempotent_witness:
  "map_sum id reason (fst (generate_weekly_plan (\<lambda>prompt. Some payload_week) db_week1 739926 1 False))
     = Inr ''Week 1: Getting started with Learn Rust''
   \<and> snd (generate_weekly_plan (\<lambda>prompt. Some payload_week) db_week1 739926 1 False) = db_week1
   \<and> get_week_start 739926 = get_week_start 739924
   \<and> generate_weekly_plan (\<lambda>prompt. Some payload_week)
        (snd (generate_weekly_plan (\<lambda>prompt. None) db_committed 739924 1 False)) 739926 1 False
      = generate_weekly_plan (\<lambda>prompt. None) db_committed 739924 1 False"
proof -
  have w: "get_week_start 739926 = 739922"
    by (simp add: get_week_start_def weekday_def)
  have c: "find (\<lambda>c. commitment_user_id c = 1 \<and> commitment_is_active c) (commitments db_week1)
      = Some commitment_example"
    by (simp add: db_week1_commitments commitment_example_def)
  have p: "find (\<lambda>p. plan_user_id p = 1 \<and> plan_week_start p = get_week_start 739926
                    \<and> plan_is_active p) (plans db_week1)
      = Some \<lparr>plan_id = 1, plan_user_id = 1, plan_week_start = 739922, plan_version = 1,
              plan_plan_json = default_plan commitment_example, plan_is_active = True\<rparr>"
    by (simp add: db_week1_plans w)
  show ?thesis
    using generate_weekly_plan_idempotent
      [of 1 db_week1 commitment_example 739926 _ "\<lambda>prompt. Some payload_week" 739926]
      generate_weekly_plan_idempotent
      [of 1 db_committed commitment_example 739924 _ "\<lambda>prompt. None" 739926
        "\<lambda>prompt. Some payload_week"]
      c p
    by (simp add: plan_to_decision_week1 w week_starts)
qed

subsection \<open>C9: the daily tasks of a plan\<close>




subsection \<open>C10: completing a task\<close>

text \<open>
  C10. For a task id that exists, the outcome of \<^verbatim>\<open>complete_task\<close> is the same for every
  caller: the acknowledgement names the task id, and the task, whatever its status and
  whoever owns its plan, is \<open>COMPLETED\<close> with the completion time set to the clock
  reading. A second call on the completed task succeeds as well and overwrites the
  completion time with the later reading.
\<close>

theorem complete_task_ignores_caller:
  assumes "find (\<lambda>t. task_id t = tid) (daily_tasks db) = Some task"
  shows "complete_task db now tid caller = complete_task db now tid other
    \<and> fst (complete_task db now tid caller)
        = Inr \<lparr>ack_message = ''Task completed'', ack_task_id = tid\<rparr>
    \<and> find (\<lambda>t. task_id t = tid) (daily_tasks (snd (complete_task db now tid caller)))
        = Some (task\<lparr>task_status := COMPLETED, task_completed_at := Some now\<rparr>)
    \<and> fst (complete_task (snd (complete_task db now tid caller)) later tid other)
        = Inr \<lparr>ack_message = ''Task completed'', ack_task_id = tid\<rparr>
    \<and> find (\<lambda>t. task_id t = tid)
         (daily_tasks (snd (complete_task (snd (complete_task db now tid caller)) later tid other)))
        = Some (task\<lparr>task_status := COMPLETED, task_completed_at := Some later\<rparr>)"
proof -
  let ?db1 = "snd (complete_task db now tid caller)"
  have f1: "find (\<lambda>t. task_id t = tid) (daily_tasks ?db1)
      = Some (task\<lparr>task_status := COMPLETED, task_completed_at := Some now\<rparr>)"
    using assms by (rule find_after_complete)
  have f2: "find (\<lambda>t. task_id t = tid) (daily_tasks (snd (complete_task ?db1 later tid other)))
      = Some (task\<lparr>task_status := COMPLETED, task_completed_at := Some now\<rparr>
               \<lparr>task_status := COMPLETED, task_completed_at := Some later\<rparr>)"
    using f1 by (rule find_after_complete)
  have f2': "find (\<lambda>t. task_id t = tid) (daily_tasks (snd (complete_task ?db1 later tid other)))
      = Some (task\<lparr>task_status := COMPLETED, task_completed_at := Some later\<rparr>)"
    unfolding f2 by simp
  have a: "complete_task db now tid caller = complete_task db now tid other"
    by (simp only: complete_task_found [OF assms])
  have b: "fst (complete_task db now tid caller)
      = Inr \<lparr>ack_message = ''Task completed'', ack_task_id = tid\<rparr>"
    by (simp only: complete_task_found [OF assms] fst_conv)
  have c: "fst (complete_task ?db1 later tid other)
      = Inr \<lparr>ack_message = ''Task completed'', ack_task_id = tid\<rparr>"
    by (simp only: complete_task_found [OF f1] fst_conv)
  from a b f1 c f2' show ?thesis by (intro conjI)
qed

theorem complete_task_ignores_caller_witness:
  "map plan_user_id (filter (\<lambda>p. plan_id p = 1) (plans db_tasks)) = [1]
   \<and> map (\<lambda>t. (task_plan_id t, task_status t, task_completed_at t))
       (filter (\<lambda>t. task_id t = 3) (daily_tasks db_tasks)) = [(1, SKIPPED, None)]
   \<and> complete_task db_tasks 1000 3 2 = complete_task db_tasks 1000 3 1
   \<and> map (\<lambda>t. (task_id t, task_status t, task_completed_at t))
       (daily_tasks (snd (complete_task db_tasks 1000 3 2)))
     = [(1, COMPLETED, None), (2, COMPLETED, None), (3, COMPLETED, Some 1000),
        (4, PENDING, None)]
   \<and> map (\<lambda>t. (task_id t, task_status t, task_completed_at t))
       (daily_tasks (snd (complete_task (snd (complete_task db_tasks 1000 3 2)) 2000 3 1)))
     = [(1, COMPLETED, None), (2, COMPLETED, None), (3, COMPLETED, Some 2000),
        (4, PENDING, None)]"
proof -
  have h: "find (\<lambda>t. task_id t = 3) (daily_tasks db_tasks) = Some (task_example 3 739924 SKIPPED)"
    by (simp add: db_tasks_def db_committed_def db_empty_def task_example_def)
  show ?thesis
    using complete_task_ignores_caller [OF h, of 1000 2 1 2000]
    by (simp add: complete_task_def db_tasks_def db_committed_def db_empty_def
        task_example_def plan_example_def)
qed

section \<open>Further properties\<close>

text \<open>
  X1. Plan versioning progression. Let the user have an active commitment and at most one
  active plan, dated in the current week. Two forced plan requests in that week then leave
  exactly one active plan of the user each time, at version \<open>N\<close> after the first and
  \<open>N + 1\<close> after the second, where \<open>N\<close> is one more than the version of the plan that was
  active, and 1 when none was.
\<close>

theorem forced_regeneration_versions:
  assumes c: "find (\<lambda>c. commitment_user_id c = uid \<and> commitment_is_active c) (commitments db) = Some c"
    and one: "length (filter (\<lambda>p. plan_user_id p = uid \<and> plan_is_active p) (plans db)) \<le> 1"
    and week: "list_all (\<lambda>p. plan_week_start p = get_week_start today)
                 (filter (\<lambda>p. plan_user_id p = uid \<and> plan_is_active p) (plans db))"
    and same: "get_week_start today' = get_week_start today"
  shows "map plan_version
           (filter (\<lambda>p. plan_user_id p = uid \<and> plan_is_active p)
              (plans (snd (generate_weekly_plan llm db today uid True))))
         = [case find (\<lambda>p. plan_user_id p = uid \<and> plan_week_start p = get_week_start today
                            \<and> plan_is_active p) (plans db) of
              None \<Rightarrow> 1 | Some e \<Rightarrow> plan_version e + 1]
     \<and> map plan_version
           (filter (\<lambda>p. plan_user_id p = uid \<and> plan_is_active p)
              (plans (snd (generate_weekly_plan llm'
                             (snd (generate_weekly_plan llm db today uid True)) today' uid True))))
         = [(case find (\<lambda>p. plan_user_id p = uid \<and> plan_week_start p = get_week_start today
                            \<and> plan_is_active p) (plans db) of
              None \<Rightarrow> 1 | Some e \<Rightarrow> plan_version e + 1) + 1]"
proof -
  let ?A = "\<lambda>p. plan_user_id p = uid \<and> plan_is_active p"
  let ?P = "\<lambda>p. plan_user_id p = uid \<and> plan_week_start p = get_week_start today
                \<and> plan_is_active p"
  let ?db1 = "snd (generate_weekly_plan llm db today uid True)"
  obtain plan1 where p1: "filter ?A (plans ?db1) = [plan1]"
      "plan_week_start plan1 = get_week_start today"
      "plan_version plan1 = (case find ?P (plans db) of None \<Rightarrow> 1 | Some e \<Rightarrow> plan_version e + 1)"
    using forced_step [OF c one week, of llm] by blast
  have c1: "find (\<lambda>c. commitment_user_id c = uid \<and> commitment_is_active c) (commitments ?db1) = Some c"
    using c by (simp add: generate_weekly_plan_commitments)
  have one1: "length (filter ?A (plans ?db1)) \<le> 1" unfolding p1(1) by simp
  have week1: "list_all (\<lambda>p. plan_week_start p = get_week_start today') (filter ?A (plans ?db1))"
    unfolding p1(1) using p1(2) same by simp
  have "plan1 \<in> set (filter ?A (plans ?db1))" unfolding p1(1) by simp
  then have a1: "?A plan1" by simp
  have "filter ?P (filter ?A (plans ?db1)) = filter (\<lambda>x. ?A x \<and> ?P x) (plans ?db1)"
    by (simp only: filter_filter)
  also have "\<dots> = filter ?P (plans ?db1)"
    by (rule filter_cong) auto
  finally have "filter ?P (plans ?db1) = filter ?P [plan1]" unfolding p1(1) by simp
  then have "filter ?P (plans ?db1) = [plan1]" using a1 p1(2) by simp
  then have f1: "find (\<lambda>p. plan_user_id p = uid \<and> plan_week_start p = get_week_start today'
                            \<and> plan_is_active p) (plans ?db1) = Some plan1"
    by (simp add: find_filter same)
  obtain plan2 where p2: "filter ?A (plans (snd (generate_weekly_plan llm' ?db1 today' uid True))) = [plan2]"
      "plan_version plan2 = plan_version plan1 + 1"
    using forced_step [OF c1 one1 week1, of llm'] unfolding f1 by auto
  show ?thesis unfolding p1(1) p2(1) using p1(3) p2(2) by simp
qed

theorem forced_regeneration_versions_witness:
  "map plan_version
     (filter (\<lambda>p. plan_user_id p = 1 \<and> plan_is_active p)
        (plans (snd (generate_weekly_plan (\<lambda>prompt. None) db_week1 739925 1 True))))
     = [2]
   \<and> map plan_version
       (filter (\<lambda>p. plan_user_id p = 1 \<and> plan_is_active p)
          (plans (snd (generate_weekly_plan (\<lambda>prompt. Some payload_week)
                         (snd (generate_weekly_plan (\<lambda>prompt. None) db_week1 739925 1 True))
                         739926 1 True))))
     = [3]"
proof -
  have w: "get_week_start 739925 = 739922" "get_week_start 739926 = 739922"
    by (simp_all add: get_week_start_def weekday_def)
  have c: "find (\<lambda>c. commitment_user_id c = 1 \<and> commitment_is_active c) (commitments db_week1)
      = Some commitment_example"
    by (simp add: db_week1_commitments commitment_example_def)
  have one: "length (filter (\<lambda>p. plan_user_id p = 1 \<and> plan_is_active p) (plans db_week1)) \<le> 1"
    by (simp add: db_week1_plans)
  have week: "list_all (\<lambda>p. plan_week_start p = get_week_start 739925)
                 (filter (\<lambda>p. plan_user_id p = 1 \<and> plan_is_active p) (plans db_week1))"
    by (simp add: db_week1_plans w)
  have same: "get_week_start 739926 = get_week_start 739925"
    by (simp add: w)
  show ?thesis
    using forced_regeneration_versions [OF c one week same,
        where llm = "\<lambda>prompt. None" and llm' = "\<lambda>prompt. Some payload_week"]
    by (simp add: db_week1_plans w)
qed

end
